theory Spec2Isabelle
  imports Main
begin

section \<open>Values shared by the control service\<close>

text \<open>
  Byte strings and uuids are Python \<open>bytes\<close> and \<open>str\<close>; both are lists of
  characters here. Timestamps are counted in microseconds, the resolution of
  Python's \<open>datetime\<close>.
\<close>

type_synonym bytes = string
type_synonym uuid = string
type_synonym time = int

text \<open>
  The exceptions that leave the modelled methods. Python keeps every mutation
  made before a raise, so a method returns the exception (if any) together
  with the state it leaves behind.
\<close>

datatype exn =
    KeyError uuid
  | ValueError string
  | AssertionError
  | Timeout
  | IsADirectoryError
  | FileNotFoundError string
  | DeliveryError string

text \<open>\<open>if stat:\<close> on a value that is \<open>None\<close> or an int.\<close>

definition truthy_stat :: "int option \<Rightarrow> bool" where
  "truthy_stat stat = (case stat of None \<Rightarrow> False | Some c \<Rightarrow> c \<noteq> 0)"

text \<open>\<open>if s:\<close> on a value that is \<open>None\<close> or a str.\<close>

definition truthy_str :: "string option \<Rightarrow> bool" where
  "truthy_str x = (case x of None \<Rightarrow> False | Some s \<Rightarrow> s \<noteq> [])"

text \<open>\<open>timedelta(minutes=m)\<close>, in microseconds.\<close>

definition timedelta_minutes :: "int \<Rightarrow> int" where
  "timedelta_minutes m = m * 60000000"

text \<open>\<open>d.get(k, default)\<close> and \<open>d.pop(k)\<close> (no default: a missing key raises).\<close>

definition dict_get :: "('k \<rightharpoonup> 'v) \<Rightarrow> 'k \<Rightarrow> 'v \<Rightarrow> 'v" where
  "dict_get d k dflt = (case d k of None \<Rightarrow> dflt | Some v \<Rightarrow> v)"

definition dict_pop :: "(uuid \<rightharpoonup> 'v) \<Rightarrow> uuid \<Rightarrow> exn + ('v \<times> (uuid \<rightharpoonup> 'v))" where
  "dict_pop d k = (case d k of None \<Rightarrow> Inl (KeyError k) | Some v \<Rightarrow> Inr (v, d(k := None)))"


section \<open>The agent supervisor\<close>

text \<open>
  The supervisor talks to the agent registry (\<open>self._aip\<close>), to the health
  subsystem (\<open>self.vip.health\<close>) and to the router; none of them is part of
  \<open>control.py\<close>. The registry is an abstract state \<open>'r\<close> with the five
  operations the supervisor calls, the health sink is a function that either
  delivers (\<open>None\<close>) or raises, and the frames handed to the router, the
  tasks handed to \<open>self.core.schedule\<close> and the alerts delivered (with the
  uuid they are about) are logged in the service's state.
  Registry, router and scheduler calls are taken to return.

  An entry of \<open>status_agents()\<close> is \<open>(uuid, name, (pid, stat), identity)\<close>.
\<close>

type_synonym agent_stat = "int option \<times> int option"
type_synonym status_entry = "uuid \<times> string \<times> agent_stat \<times> string"

record 'r collaborators =
  aip_status_agents :: "'r \<Rightarrow> status_entry list"
  aip_agent_status :: "'r \<Rightarrow> uuid \<Rightarrow> agent_stat"
  aip_start_agent :: "'r \<Rightarrow> uuid \<Rightarrow> agent_stat \<times> 'r"
  aip_stop_agent :: "'r \<Rightarrow> uuid \<Rightarrow> 'r"
  aip_agent_identity :: "'r \<Rightarrow> uuid \<Rightarrow> string option"
  health_send_alert :: "string \<Rightarrow> string \<Rightarrow> exn option"

record 'r control =
  registry :: 'r
  crashed_agents :: "uuid \<rightharpoonup> int"
  scheduled :: "(time \<times> uuid \<times> string) list"
  alerts :: "(uuid \<times> string \<times> string) list"
  router :: "(string \<times> string option list) list"

text \<open>\<open>ControlService.send_alert\<close>: builds the key and the context, and calls the sink.\<close>

definition alert_key :: "uuid \<Rightarrow> string \<Rightarrow> string" where
  "alert_key agent_id agent_name =
     ''Agent '' @ agent_name @ ''('' @ agent_id @ '') stopped unexpectedly''"

definition alert_context :: "uuid \<Rightarrow> string \<Rightarrow> string" where
  "alert_context agent_id agent_name =
     ''Agent '' @ agent_name @ ''('' @ agent_id @ '') stopped unexpectedly. Attempts to restart failed''"

definition send_alert ::
  "'r collaborators \<Rightarrow> uuid \<Rightarrow> string \<Rightarrow> 'r control \<Rightarrow> exn option \<times> 'r control" where
  "send_alert env agent_id agent_name s =
     (let key = alert_key agent_id agent_name;
          context = alert_context agent_id agent_name
      in case health_send_alert env key context of
           Some e \<Rightarrow> (Some e, s)
         | None \<Rightarrow> (None, s\<lparr>alerts := alerts s @ [(agent_id, key, context)]\<rparr>))"

text \<open>The body of the \<open>for\<close> loop of \<open>ControlService._monitor_agents\<close>.\<close>

definition monitor_one ::
  "'r collaborators \<Rightarrow> time \<Rightarrow> status_entry \<Rightarrow> 'r control \<Rightarrow> exn option \<times> 'r control" where
  "monitor_one env now entry s =
     (case entry of (uid, name, (pid, stat), identity) \<Rightarrow>
        if truthy_stat stat then
          let attempt = dict_get (crashed_agents s) uid (- 1) + 1 in
          if attempt < 5 then
            let s1 = s\<lparr>crashed_agents := (crashed_agents s)(uid \<mapsto> attempt)\<rparr>;
                next_restart = now + timedelta_minutes (attempt * 5)
            in (None, s1\<lparr>scheduled := scheduled s1 @ [(next_restart, uid, name)]\<rparr>)
          else
            (case send_alert env uid name s of
               (Some e, s1) \<Rightarrow> (Some e, s1)
             | (None, s1) \<Rightarrow>
                 (case dict_pop (crashed_agents s1) uid of
                    Inl e \<Rightarrow> (Some e, s1)
                  | Inr (_, d) \<Rightarrow> (None, s1\<lparr>crashed_agents := d\<rparr>)))
        else (None, s))"

fun monitor_loop ::
  "'r collaborators \<Rightarrow> time \<Rightarrow> status_entry list \<Rightarrow> 'r control \<Rightarrow> exn option \<times> 'r control" where
  "monitor_loop env now [] s = (None, s)"
| "monitor_loop env now (entry # rest) s =
     (case monitor_one env now entry s of
        (Some e, s1) \<Rightarrow> (Some e, s1)
      | (None, s1) \<Rightarrow> monitor_loop env now rest s1)"

text \<open>
  \<open>ControlService._monitor_agents\<close>. \<open>now\<close> is what \<open>utils.get_aware_utc_now()\<close>
  returns during this poll.
\<close>

definition monitor_agents ::
  "'r collaborators \<Rightarrow> time \<Rightarrow> 'r control \<Rightarrow> exn option \<times> 'r control" where
  "monitor_agents env now s = monitor_loop env now (aip_status_agents env (registry s)) s"

text \<open>
  \<open>ControlService.stop_agent\<close>, called with a \<open>str\<close>: looks the identity up,
  stops the agent in the registry and tells the router.
\<close>

definition stop_agent :: "'r collaborators \<Rightarrow> uuid \<Rightarrow> 'r control \<Rightarrow> 'r control" where
  "stop_agent env uid s =
     (let identity = aip_agent_identity env (registry s) uid;
          s1 = s\<lparr>registry := aip_stop_agent env (registry s) uid\<rparr>
      in s1\<lparr>router := router s1 @ [(''agentstop'', [identity])]\<rparr>)"

text \<open>\<open>ControlService._restart_agent\<close>, the task that \<open>_monitor_agents\<close> schedules.\<close>

definition restart_agent ::
  "'r collaborators \<Rightarrow> uuid \<Rightarrow> string \<Rightarrow> 'r control \<Rightarrow> exn option \<times> 'r control" where
  "restart_agent env agent_id agent_name s =
     (case aip_agent_status env (registry s) agent_id of (_, stat) \<Rightarrow>
        if truthy_stat stat then
          let s1 = stop_agent env agent_id s in
          (case aip_start_agent env (registry s1) agent_id of ((_, stat2), r2) \<Rightarrow>
             let s2 = s1\<lparr>registry := r2\<rparr> in
             if stat2 = None then
               (case dict_pop (crashed_agents s2) agent_id of
                  Inl e \<Rightarrow> (Some e, s2)
                | Inr (_, d) \<Rightarrow> (None, s2\<lparr>crashed_agents := d\<rparr>))
             else (None, s2))
        else (None, s))"

text \<open>
  What the scheduler runs: a poll, or a restart task for a uuid and a name.
  Between two events the registry changes on its own (agents crash), so each
  event carries the registry as it finds it, and a poll the time it reads. A run
  is the list of the events that ran, in order: each starts from the state the
  one before it left, also when that one raised, and the run gives the
  exceptions raised and the last state.
\<close>

datatype 'r event = Poll time 'r | Task uuid string 'r

definition run_event ::
  "'r collaborators \<Rightarrow> 'r event \<Rightarrow> 'r control \<Rightarrow> exn option \<times> 'r control" where
  "run_event env ev s =
     (case ev of
        Poll now r \<Rightarrow> monitor_agents env now (s\<lparr>registry := r\<rparr>)
      | Task uid name r \<Rightarrow> restart_agent env uid name (s\<lparr>registry := r\<rparr>))"

fun run ::
  "'r collaborators \<Rightarrow> 'r event list \<Rightarrow> 'r control \<Rightarrow> exn list \<times> 'r control" where
  "run env [] s = ([], s)"
| "run env (ev # evs) s =
     (case run_event env ev s of (raised, s1) \<Rightarrow>
        (case run env evs s1 of (errors, s2) \<Rightarrow>
           ((case raised of None \<Rightarrow> errors | Some e \<Rightarrow> e # errors), s2)))"

fun poll_times :: "'r event list \<Rightarrow> time list" where
  "poll_times [] = []"
| "poll_times (Poll now r # evs) = now # poll_times evs"
| "poll_times (Task uid name r # evs) = poll_times evs"

text \<open>The restart tasks scheduled for a uuid, and the alerts delivered about it.\<close>

definition tasks_for :: "uuid \<Rightarrow> (time \<times> uuid \<times> string) list \<Rightarrow> (time \<times> uuid \<times> string) list" where
  "tasks_for uid tasks = filter (\<lambda>task. fst (snd task) = uid) tasks"

definition alerts_for :: "uuid \<Rightarrow> (uuid \<times> string \<times> string) list \<Rightarrow> (uuid \<times> string \<times> string) list" where
  "alerts_for uid sent_alerts = filter (\<lambda>alert. fst alert = uid) sent_alerts"

text \<open>
  A status list in which the uuid has exactly one entry, under the given name
  and with a status that counts as crashed; the other entries are arbitrary.
\<close>

definition crashing_in :: "status_entry list \<Rightarrow> uuid \<Rightarrow> string \<Rightarrow> bool" where
  "crashing_in stats uid name =
     (case filter (\<lambda>entry. fst entry = uid) stats of
        [] \<Rightarrow> False
      | entry # others \<Rightarrow>
          others = [] \<and>
          (case entry of (u, n, (pid, stat), identity) \<Rightarrow> n = name \<and> truthy_stat stat))"

text \<open>
  A restart task that does not restart its agent: it finds the agent healthy, or
  the start it issues reports a status.
\<close>

definition unsuccessful :: "'r collaborators \<Rightarrow> 'r \<Rightarrow> uuid \<Rightarrow> bool" where
  "unsuccessful env r uid =
     (\<not> truthy_stat (snd (aip_agent_status env r uid)) \<or>
      snd (fst (aip_start_agent env (aip_stop_agent env r uid) uid)) \<noteq> None)"

text \<open>
  Events during which an agent never comes back: every poll finds it crashed,
  and none of its own restart tasks restarts it. The restart tasks of other
  agents are arbitrary.
\<close>

definition crash_looping :: "'r collaborators \<Rightarrow> uuid \<Rightarrow> string \<Rightarrow> 'r event list \<Rightarrow> bool" where
  "crash_looping env uid name evs =
     (\<forall>ev \<in> set evs.
        case ev of
          Poll now r \<Rightarrow> crashing_in (aip_status_agents env r) uid name
        | Task u n r \<Rightarrow> u = uid \<longrightarrow> unsuccessful env r u)"

text \<open>
  A registry of one agent for concrete runs: the state is the agent's exit
  status, \<open>start_stat\<close> is the status every start reports.
\<close>

definition one_agent_env ::
  "int option \<Rightarrow> (string \<Rightarrow> string \<Rightarrow> exn option) \<Rightarrow> int option collaborators" where
  "one_agent_env start_stat sink =
     \<lparr>aip_status_agents = (\<lambda>r. [(''a1'', ''listeneragent-3.3'', (Some 4242, r), ''listener'')]),
      aip_agent_status = (\<lambda>r uid. (Some 4242, r)),
      aip_start_agent = (\<lambda>r uid. ((Some 4243, start_stat), start_stat)),
      aip_stop_agent = (\<lambda>r uid. Some 0),
      aip_agent_identity = (\<lambda>r uid. Some ''listener''),
      health_send_alert = sink\<rparr>"

definition idle_control :: "int option control" where
  "idle_control =
     \<lparr>registry = Some 1, crashed_agents = Map.empty, scheduled = [], alerts = [], router = []\<rparr>"

section \<open>The artifact transfer session\<close>

text \<open>
  The receiving side is the loop of \<open>ControlService.install_agent\<close>. The two
  requests are \<open>jsonapi.dumpb(["fetch", 1024])\<close> and \<open>jsonapi.dumpb(["checksum"])\<close>.

  The remote end of the channel is a state machine \<open>respond\<close>: given its state
  and the request just sent, it gives its next state and what the following
  \<open>channel.recv()\<close> returns, \<open>None\<close> when nothing arrives before the
  \<open>gevent.Timeout(30)\<close> around the receive fires. The hash is
  \<open>hashlib.sha512\<close>; it is a parameter \<open>H\<close>, and the hash object is the bytes
  fed to it so far, so that \<open>digest()\<close> is \<open>H\<close> of them.
\<close>

datatype request = Fetch nat | Checksum

record 'p session =
  peer :: 'p
  sent :: "request list"
  sha512 :: bytes
  store :: bytes
  checksum :: "bytes option"
  store_closed :: bool
  channel_closed :: bool

definition new_session :: "'p \<Rightarrow> 'p session" where
  "new_session p =
     \<lparr>peer = p, sent = [], sha512 = [], store = [], checksum = None,
      store_closed = False, channel_closed = False\<rparr>"

text \<open>How one pass through the body of \<open>while True\<close> ends.\<close>

datatype 'p step = Break "'p session" | Raise exn "'p session" | Continue "'p session"

definition transfer_round ::
  "(bytes \<Rightarrow> bytes) \<Rightarrow> ('p \<Rightarrow> request \<Rightarrow> 'p \<times> bytes option) \<Rightarrow> request \<Rightarrow> request \<Rightarrow>
   'p session \<Rightarrow> 'p step" where
  "transfer_round H respond request_fetch request_checksum s =
     (case respond (peer s) request_fetch of (p1, reply1) \<Rightarrow>
        let s1 = s\<lparr>peer := p1, sent := sent s @ [request_fetch]\<rparr> in
        (case reply1 of
           None \<Rightarrow> Raise Timeout s1
         | Some chunk \<Rightarrow>
             if chunk = ''complete'' then Break s1
             else
               let s2 = s1\<lparr>sha512 := sha512 s1 @ chunk, store := store s1 @ chunk\<rparr> in
               (case respond (peer s2) request_checksum of (p2, reply2) \<Rightarrow>
                  let s3 = s2\<lparr>peer := p2, sent := sent s2 @ [request_checksum]\<rparr> in
                  (case reply2 of
                     None \<Rightarrow> Raise Timeout s3
                   | Some digest \<Rightarrow>
                       let s4 = s3\<lparr>checksum := Some digest\<rparr> in
                       if digest = H (sha512 s4) then Continue s4
                       else Raise AssertionError s4))))"

text \<open>
  The loop may run for ever (a peer that never sends the sentinel), so it takes
  fuel, one unit per pass; \<open>None\<close> is a run that has not ended yet.
\<close>

fun transfer_loop ::
  "nat \<Rightarrow> (bytes \<Rightarrow> bytes) \<Rightarrow> ('p \<Rightarrow> request \<Rightarrow> 'p \<times> bytes option) \<Rightarrow> request \<Rightarrow> request \<Rightarrow>
   'p session \<Rightarrow> (exn option \<times> 'p session) option" where
  "transfer_loop 0 H respond request_fetch request_checksum s = None"
| "transfer_loop (Suc fuel) H respond request_fetch request_checksum s =
     (case transfer_round H respond request_fetch request_checksum s of
        Break s1 \<Rightarrow> Some (None, s1)
      | Raise e s1 \<Rightarrow> Some (Some e, s1)
      | Continue s1 \<Rightarrow> transfer_loop fuel H respond request_fetch request_checksum s1)"

text \<open>The session after \<open>k\<close> passes that each ended with a matching digest.\<close>

fun rounds ::
  "nat \<Rightarrow> (bytes \<Rightarrow> bytes) \<Rightarrow> ('p \<Rightarrow> request \<Rightarrow> 'p \<times> bytes option) \<Rightarrow> request \<Rightarrow> request \<Rightarrow>
   'p session \<Rightarrow> 'p session option" where
  "rounds 0 H respond request_fetch request_checksum s = Some s"
| "rounds (Suc k) H respond request_fetch request_checksum s =
     (case transfer_round H respond request_fetch request_checksum s of
        Continue s1 \<Rightarrow> rounds k H respond request_fetch request_checksum s1
      | _ \<Rightarrow> None)"

text \<open>
  Modelled from the spec: the state of the sending side, which is not in
  \<open>control.py\<close>: the bytes from its read cursor on, and the bytes sent so far.
\<close>

record sender =
  remaining :: bytes
  transmitted :: bytes

text \<open>
  Modelled from the spec: the sending side of the transfer. On a fetch it reads
  up to chunk-size bytes at its own advancing cursor and replies with the chunk,
  or with the completion sentinel if no bytes remain; on a checksum request it
  replies with its digest over everything sent so far.
\<close>

definition sender_respond :: "(bytes \<Rightarrow> bytes) \<Rightarrow> sender \<Rightarrow> request \<Rightarrow> sender \<times> bytes option" where
  "sender_respond H snd_state req =
     (case req of
        Fetch n \<Rightarrow>
          if remaining snd_state = [] then (snd_state, Some ''complete'')
          else
            let chunk = take n (remaining snd_state)
            in (\<lparr>remaining = drop n (remaining snd_state),
                 transmitted = transmitted snd_state @ chunk\<rparr>, Some chunk)
      | Checksum \<Rightarrow> (snd_state, Some (H (transmitted snd_state))))"

text \<open>The artifact cut into chunks of \<open>n\<close> bytes, the last one shorter.\<close>

function chunks :: "nat \<Rightarrow> bytes \<Rightarrow> bytes list" where
  "chunks n xs = (if n = 0 \<or> xs = [] then [] else take n xs # chunks n (drop n xs))"
  by pat_completeness auto
termination
  by (relation "measure (\<lambda>(n, xs). length xs)") auto

declare chunks.simps [simp del]

text \<open>
  A peer that plays a fixed list of replies and then falls silent, and a
  stand-in for the hash, for concrete runs.
\<close>

definition scripted :: "bytes option list \<Rightarrow> request \<Rightarrow> bytes option list \<times> bytes option" where
  "scripted replies req = (case replies of [] \<Rightarrow> ([], None) | r # rest \<Rightarrow> (rest, r))"

definition stand_in_digest :: "bytes \<Rightarrow> bytes" where
  "stand_in_digest bs = rev bs"


section \<open>Installing an agent\<close>

text \<open>
  Modelled from the spec: the Agent Registry (\<open>self._aip\<close>) and the files the
  install touches, none of which is in \<open>control.py\<close>. The registry lists the
  installed agents in order; an agent has a name, an identity, a tag, a
  priority, a keypair and the bytes of its package. A directory is the
  agent-data directory of a uuid or a directory made by \<open>tempfile.mkdtemp\<close>,
  and holds files by name. A Backup Archive is a tarball rooted at the data
  directory: the files of that directory by name. Registry and file calls are
  taken to return, except where an exception is written out.

  The platform also keeps, in the order they were made, the calls that changed
  the registry or a tarball: an archive taken, an agent removed, an agent
  installed, an archive restored.
\<close>

record agent =
  agent_name :: string
  agent_identity :: "string option"
  agent_tag :: "string option"
  agent_priority :: "string option"
  agent_publickey :: "string option"
  agent_secretkey :: "string option"
  agent_wheel :: bytes

datatype dir = AgentData uuid | TmpDir string

datatype effect =
    Archived string dir
  | Removed uuid
  | Installed uuid
  | Restored string dir

record platform =
  agents :: "(uuid \<times> agent) list"
  dirs :: "dir \<rightharpoonup> (string \<rightharpoonup> bytes)"
  tarballs :: "string \<rightharpoonup> (string \<rightharpoonup> bytes)"
  vip_sent :: "(string \<times> string option list) list"
  history :: "effect list"

text \<open>What the collaborators choose on their own during one install.\<close>

record choices =
  fresh_uuid :: uuid
  fresh_tmpdir :: string

text \<open>Modelled from the spec: \<open>listInstalled() -> [(uuid, name)]\<close>.\<close>

definition platform_list_agents :: "platform \<Rightarrow> (uuid \<times> string) list" where
  "platform_list_agents plat = map (\<lambda>(uid, a). (uid, agent_name a)) (agents plat)"

text \<open>Modelled from the spec: the registry's record of a uuid, if it is installed.\<close>

definition platform_agent :: "platform \<Rightarrow> uuid \<Rightarrow> agent option" where
  "platform_agent plat uid = map_of (agents plat) uid"

text \<open>
  Modelled from the spec: identity, tag and priority of a uuid (\<open>aip.agent_identity\<close>,
  \<open>aip.agent_tag\<close>, \<open>aip.agent_priority\<close>), \<open>None\<close> when there is none.
\<close>

definition platform_agent_identity :: "platform \<Rightarrow> uuid \<Rightarrow> string option" where
  "platform_agent_identity plat uid =
     (case platform_agent plat uid of None \<Rightarrow> None | Some a \<Rightarrow> agent_identity a)"

definition platform_agent_tag :: "platform \<Rightarrow> uuid \<Rightarrow> string option" where
  "platform_agent_tag plat uid =
     (case platform_agent plat uid of None \<Rightarrow> None | Some a \<Rightarrow> agent_tag a)"

definition platform_agent_priority :: "platform \<Rightarrow> uuid \<Rightarrow> string option" where
  "platform_agent_priority plat uid =
     (case platform_agent plat uid of None \<Rightarrow> None | Some a \<Rightarrow> agent_priority a)"

text \<open>Modelled from the spec: \<open>keystore(uuid) -> (publickey, secretkey)\<close>.\<close>

definition platform_get_agent_keystore :: "platform \<Rightarrow> uuid \<Rightarrow> string option \<times> string option" where
  "platform_get_agent_keystore plat uid =
     (case platform_agent plat uid of
        None \<Rightarrow> (None, None)
      | Some a \<Rightarrow> (agent_publickey a, agent_secretkey a))"

text \<open>Modelled from the spec: \<open>dataDir(uuid) -> path\<close>, created on demand.\<close>

definition platform_create_agent_data_dir_if_missing :: "platform \<Rightarrow> uuid \<Rightarrow> dir option \<times> platform" where
  "platform_create_agent_data_dir_if_missing plat uid =
     (Some (AgentData uid),
      (case dirs plat (AgentData uid) of
         None \<Rightarrow> plat\<lparr>dirs := (dirs plat)(AgentData uid \<mapsto> Map.empty)\<rparr>
       | Some _ \<Rightarrow> plat))"

text \<open>Modelled from the spec: \<open>remove(uuid)\<close> destroys the agent and its directory.\<close>

definition platform_remove_agent :: "platform \<Rightarrow> uuid \<Rightarrow> platform" where
  "platform_remove_agent plat uid =
     plat\<lparr>agents := filter (\<lambda>(u, a). u \<noteq> uid) (agents plat),
          dirs := (dirs plat)(AgentData uid := None),
          history := history plat @ [Removed uid]\<rparr>"

text \<open>
  Modelled from the spec: \<open>install(path, identity, publickey?, secretkey?) -> uuid\<close>
  registers the package found at \<open>path\<close> under the identity, with the keys
  given, and returns the uuid the registry assigns.
\<close>

definition platform_install_agent ::
  "choices \<Rightarrow> platform \<Rightarrow> dir \<times> string \<Rightarrow> string option \<Rightarrow> string option \<Rightarrow> string option \<Rightarrow>
   uuid \<times> platform" where
  "platform_install_agent ch plat path vip_identity publickey secretkey =
     (let package = (case dirs plat (fst path) of
                       None \<Rightarrow> []
                     | Some files \<Rightarrow> (case files (snd path) of None \<Rightarrow> [] | Some b \<Rightarrow> b));
          a = \<lparr>agent_name = snd path, agent_identity = vip_identity, agent_tag = None,
               agent_priority = None, agent_publickey = publickey, agent_secretkey = secretkey,
               agent_wheel = package\<rparr>
      in (fresh_uuid ch,
          plat\<lparr>agents := agents plat @ [(fresh_uuid ch, a)],
               history := history plat @ [Installed (fresh_uuid ch)]\<rparr>))"

text \<open>\<open>ControlService.list_agents\<close>: one dict per installed agent.\<close>

record listing =
  listing_name :: string
  listing_uuid :: uuid
  listing_tag :: "string option"
  listing_priority :: "string option"
  listing_identity :: "string option"

definition list_agents :: "platform \<Rightarrow> listing list" where
  "list_agents plat =
     map (\<lambda>(uid, name).
            \<lparr>listing_name = name, listing_uuid = uid, listing_tag = platform_agent_tag plat uid,
             listing_priority = platform_agent_priority plat uid,
             listing_identity = platform_agent_identity plat uid\<rparr>)
         (platform_list_agents plat)"

text \<open>\<open>ControlService._identity_exists\<close>.\<close>

definition identity_exists :: "platform \<Rightarrow> string \<Rightarrow> uuid option" where
  "identity_exists plat identity =
     (let results = list_agents plat
      in if results = [] then None
         else map_option listing_uuid
                (find (\<lambda>x. listing_identity x = Some identity) results))"

text \<open>
  \<open>ControlService._identity_exists_but_no_force\<close>; the result is
  \<open>(agent_uuid, agent_existed_before)\<close>.
\<close>

definition identity_exists_but_no_force ::
  "platform \<Rightarrow> string option \<Rightarrow> bool \<Rightarrow> exn + (uuid option \<times> bool)" where
  "identity_exists_but_no_force plat vip_identity force =
     (let agent_uuid = (if truthy_str vip_identity then identity_exists plat (the vip_identity)
                        else None)
      in if truthy_str agent_uuid then
           (if \<not> force then Inl (ValueError ''Identity already exists, but not forced!'')
            else Inr (agent_uuid, True))
         else Inr (agent_uuid, False))"

text \<open>\<open>ControlService.remove_agent\<close>, called with a \<open>str\<close>.\<close>

definition remove_agent :: "platform \<Rightarrow> uuid \<Rightarrow> platform" where
  "remove_agent plat uid =
     (let identity = platform_agent_identity plat uid;
          plat1 = plat\<lparr>vip_sent := vip_sent plat @ [(''agentstop'', [identity])]\<rparr>
      in platform_remove_agent plat1 uid)"

text \<open>
  \<open>backup_agent_data\<close> and \<open>restore_agent_data_from_tgz\<close>. Extracting writes
  every file of the tarball into the directory, over a file of the same name.
\<close>

definition backup_agent_data :: "platform \<Rightarrow> string \<Rightarrow> dir \<Rightarrow> platform" where
  "backup_agent_data plat output_filename source_dir =
     plat\<lparr>tarballs := (tarballs plat)(output_filename \<mapsto>
            (case dirs plat source_dir of None \<Rightarrow> Map.empty | Some files \<Rightarrow> files)),
          history := history plat @ [Archived output_filename source_dir]\<rparr>"

definition restore_agent_data_from_tgz :: "platform \<Rightarrow> string \<Rightarrow> dir \<Rightarrow> exn option \<times> platform" where
  "restore_agent_data_from_tgz plat source_file output_dir =
     (case tarballs plat source_file of
        None \<Rightarrow> (Some (FileNotFoundError source_file), plat)
      | Some tar \<Rightarrow>
          (None, plat\<lparr>dirs := (dirs plat)(output_dir \<mapsto>
                   (case dirs plat output_dir of None \<Rightarrow> Map.empty | Some files \<Rightarrow> files) ++ tar),
                      history := history plat @ [Restored source_file output_dir]\<rparr>))"

text \<open>\<open>ControlService._install_wheel_to_platform\<close>.\<close>

definition install_wheel_to_platform ::
  "choices \<Rightarrow> platform \<Rightarrow> uuid option \<Rightarrow> string option \<Rightarrow> dir \<times> string \<Rightarrow> bool \<Rightarrow>
   (exn + uuid) \<times> platform" where
  "install_wheel_to_platform ch plat agent_uuid vip_identity path agent_existed_before =
     (let (backup_agent_file, publickey, secretkey, plat3) =
            (if truthy_str agent_uuid then
               let old = the agent_uuid;
                   backup = ''/tmp/'' @ old @ ''.tar.gz'';
                   (agent_data_dir, plat1) = platform_create_agent_data_dir_if_missing plat old;
                   plat2 = (case agent_data_dir of
                              Some d \<Rightarrow> backup_agent_data plat1 backup d
                            | None \<Rightarrow> plat1);
                   keystore = platform_get_agent_keystore plat2 old
               in (Some backup, fst keystore, snd keystore, remove_agent plat2 old)
             else (None, None, None, plat));
          (new_uuid, plat4) = platform_install_agent ch plat3 path vip_identity publickey secretkey
      in if agent_existed_before \<and> backup_agent_file \<noteq> None then
           let (new_dir, plat5) = platform_create_agent_data_dir_if_missing plat4 new_uuid
           in (case restore_agent_data_from_tgz plat5 (the backup_agent_file) (the new_dir) of
                 (Some e, plat6) \<Rightarrow> (Inl e, plat6)
               | (None, plat6) \<Rightarrow> (Inr new_uuid, plat6))
         else (Inr new_uuid, plat4))"

text \<open>\<open>os.path.basename\<close>, \<open>shutil.rmtree\<close> and writing a file of a directory.\<close>

definition basename :: "string \<Rightarrow> string" where
  "basename p = rev (takeWhile (\<lambda>c. c \<noteq> CHR ''/'') (rev p))"

definition rmtree :: "platform \<Rightarrow> dir \<Rightarrow> platform" where
  "rmtree plat d = plat\<lparr>dirs := (dirs plat)(d := None)\<rparr>"

definition write_file :: "platform \<Rightarrow> dir \<Rightarrow> string \<Rightarrow> bytes \<Rightarrow> platform" where
  "write_file plat d file content =
     plat\<lparr>dirs := (dirs plat)(d \<mapsto>
            (case dirs plat d of None \<Rightarrow> Map.empty | Some files \<Rightarrow> files)(file \<mapsto> content))\<rparr>"

text \<open>
  \<open>ControlService.install_agent\<close>. \<open>p0\<close> is the remote end of the channel as
  \<open>self.vip.channel(peer, channel_name)\<close> opens it; the body makes no other use
  of \<open>channel_name\<close> and none of its \<open>publickey\<close> and \<open>secretkey\<close> arguments,
  which are left out. The result is what the call returns or raises, the
  platform it leaves, and the session if a channel was opened.
  \<open>open(path, "wb")\<close> raises when the file name of \<open>filename\<close> names a
  directory; the inner \<open>try\<close> has not been entered then, so only the outer
  \<open>finally\<close> runs.
\<close>

definition install_agent ::
  "nat \<Rightarrow> (bytes \<Rightarrow> bytes) \<Rightarrow> ('p \<Rightarrow> request \<Rightarrow> 'p \<times> bytes option) \<Rightarrow> choices \<Rightarrow>
   string \<Rightarrow> 'p \<Rightarrow> string option \<Rightarrow> bool \<Rightarrow> platform \<Rightarrow>
   ((exn + uuid) \<times> platform \<times> 'p session option) option" where
  "install_agent fuel H respond ch filename p0 vip_identity force plat =
     (case identity_exists_but_no_force plat vip_identity force of
        Inl e \<Rightarrow> Some (Inl e, plat, None)
      | Inr (agent_uuid, agent_existed_before) \<Rightarrow>
          let channel = new_session p0;
              tmpdir = TmpDir (fresh_tmpdir ch);
              plat1 = plat\<lparr>dirs := (dirs plat)(tmpdir \<mapsto> Map.empty)\<rparr>;
              file = basename filename
          in if file \<in> {[], ''.'', ''..''} then
               Some (Inl IsADirectoryError, rmtree plat1 tmpdir, Some channel)
             else
               let plat2 = write_file plat1 tmpdir file [] in
               (case transfer_loop fuel H respond (Fetch 1024) Checksum channel of
                  None \<Rightarrow> None
                | Some (raised, sess) \<Rightarrow>
                    let plat3 = write_file plat2 tmpdir file (store sess);
                        closed = sess\<lparr>store_closed := True, channel_closed := True\<rparr>
                    in (case raised of
                          Some e \<Rightarrow> Some (Inl e, rmtree plat3 tmpdir, Some closed)
                        | None \<Rightarrow>
                            (case install_wheel_to_platform ch plat3 agent_uuid vip_identity
                                    (tmpdir, file) agent_existed_before of
                               (r, plat4) \<Rightarrow> Some (r, rmtree plat4 tmpdir, Some closed)))))"


text \<open>A platform with one installed agent, and the collaborators' choices, for concrete runs.\<close>

definition demo_platform :: platform where
  "demo_platform =
     \<lparr>agents = [(''u-1'', \<lparr>agent_name = ''listeneragent-3.3'', agent_identity = Some ''listener'',
                           agent_tag = None, agent_priority = Some ''50'',
                           agent_publickey = Some ''PUB1'', agent_secretkey = Some ''SEC1'',
                           agent_wheel = ''wheel-v1''\<rparr>)],
      dirs = [AgentData ''u-1'' \<mapsto> [''state.json'' \<mapsto> ''{}'']],
      tarballs = Map.empty,
      vip_sent = [],
      history = []\<rparr>"

definition demo_choices :: choices where
  "demo_choices = \<lparr>fresh_uuid = ''u-2'', fresh_tmpdir = ''/tmp/tmpa1b2''\<rparr>"

text \<open>
  Five polls ten minutes apart, each followed by the restart task it scheduled
  as soon as that task is due; a registry of two crashed agents; service states.
\<close>

definition five_polls :: "int option event list" where
  "five_polls =
     [Poll 0 (Some 1), Task ''a1'' ''listeneragent-3.3'' (Some 1),
      Poll 600000000 (Some 1), Task ''a1'' ''listeneragent-3.3'' (Some 1),
      Poll 1200000000 (Some (- 9)),
      Poll 1800000000 (Some 1), Task ''a1'' ''listeneragent-3.3'' (Some 1),
      Task ''a1'' ''listeneragent-3.3'' (Some 1),
      Poll 2400000000 (Some 1)]"

text \<open>Six polls, each of the first five followed by the restart task it scheduled.\<close>

definition restart_loop :: "int option event list" where
  "restart_loop =
     [Poll 0 (Some 1), Task ''a1'' ''listeneragent-3.3'' (Some 1),
      Poll 600000000 (Some 1), Task ''a1'' ''listeneragent-3.3'' (Some 1),
      Poll 1200000000 (Some 1), Task ''a1'' ''listeneragent-3.3'' (Some 1),
      Poll 1800000000 (Some 1), Task ''a1'' ''listeneragent-3.3'' (Some 1),
      Poll 2400000000 (Some 1), Task ''a1'' ''listeneragent-3.3'' (Some 1),
      Poll 3000000000 (Some 1)]"

definition two_agent_env ::
  "(string \<Rightarrow> string \<Rightarrow> exn option) \<Rightarrow> unit collaborators" where
  "two_agent_env sink =
     \<lparr>aip_status_agents = (\<lambda>r. [(''a1'', ''listeneragent-3.3'', (Some 4242, Some 1), ''listener''),
                                (''a2'', ''forwarder-5.1'', (Some 4250, Some 1), ''forwarder'')]),
      aip_agent_status = (\<lambda>r uid. (Some 4242, Some 1)),
      aip_start_agent = (\<lambda>r uid. ((Some 4243, Some 1), r)),
      aip_stop_agent = (\<lambda>r uid. r),
      aip_agent_identity = (\<lambda>r uid. None),
      health_send_alert = sink\<rparr>"

definition exhausted_control :: "unit control" where
  "exhausted_control =
     \<lparr>registry = (), crashed_agents = [''a1'' \<mapsto> 4], scheduled = [], alerts = [], router = []\<rparr>"

definition crashed_once_control :: "int option control" where
  "crashed_once_control =
     \<lparr>registry = Some 1, crashed_agents = [''a1'' \<mapsto> 0],
      scheduled = [(0, ''a1'', ''listeneragent-3.3'')], alerts = [], router = []\<rparr>"


section \<open>Properties of the supervisor\<close>

subsection \<open>One poll\<close>

lemma monitor_loop_append:
  "monitor_loop env now (xs @ ys) s =
     (case monitor_loop env now xs s of
        (Some e, s1) \<Rightarrow> (Some e, s1)
      | (None, s1) \<Rightarrow> monitor_loop env now ys s1)"
  by (induction xs arbitrary: s) (auto split: prod.splits option.splits)

lemma monitor_one_delivering:
  assumes "\<forall>key context. health_send_alert env key context = None"
  shows "fst (monitor_one env now entry s) = None"
  using assms
  by (cases entry)
     (auto simp: monitor_one_def Let_def send_alert_def dict_pop_def dict_get_def
           split: option.splits prod.splits sum.splits)

lemma monitor_loop_delivering:
  assumes "\<forall>key context. health_send_alert env key context = None"
  shows "fst (monitor_loop env now entries s) = None"
proof (induction entries arbitrary: s)
  case Nil
  show ?case by simp
next
  case (Cons entry entries)
  obtain e s1 where m: "monitor_one env now entry s = (e, s1)" by (cases "monitor_one env now entry s")
  with monitor_one_delivering[OF assms, of now entry s] have "e = None" by simp
  with m Cons.IH[of s1] show ?case by simp
qed

subsection \<open>Linear backoff and the alert\<close>

lemma monitor_one_other:
  assumes "\<forall>key context. health_send_alert env key context = None" "fst entry \<noteq> uid"
  shows "\<exists>s'. monitor_one env now entry s = (None, s') \<and>
     crashed_agents s' uid = crashed_agents s uid \<and>
     tasks_for uid (scheduled s') = tasks_for uid (scheduled s) \<and>
     alerts_for uid (alerts s') = alerts_for uid (alerts s)"
  using assms
  by (cases entry)
     (auto simp: monitor_one_def Let_def send_alert_def dict_pop_def dict_get_def
           tasks_for_def alerts_for_def
           split: option.splits)

lemma monitor_loop_others:
  assumes "\<forall>key context. health_send_alert env key context = None"
    and "\<forall>entry \<in> set entries. fst entry \<noteq> uid"
  shows "\<exists>s'. monitor_loop env now entries s = (None, s') \<and>
     crashed_agents s' uid = crashed_agents s uid \<and>
     tasks_for uid (scheduled s') = tasks_for uid (scheduled s) \<and>
     alerts_for uid (alerts s') = alerts_for uid (alerts s)"
  using assms(2)
proof (induction entries arbitrary: s)
  case Nil
  show ?case by simp
next
  case (Cons entry entries)
  from Cons.prems have "fst entry \<noteq> uid" by simp
  from monitor_one_other[OF assms(1) this, of now s] obtain s1 where
    one: "monitor_one env now entry s = (None, s1)"
    and f1: "crashed_agents s1 uid = crashed_agents s uid"
      "tasks_for uid (scheduled s1) = tasks_for uid (scheduled s)"
      "alerts_for uid (alerts s1) = alerts_for uid (alerts s)"
    by blast
  from Cons.prems have "\<forall>entry \<in> set entries. fst entry \<noteq> uid" by simp
  from Cons.IH[OF this, of s1] obtain s' where
    "monitor_loop env now entries s1 = (None, s')"
    "crashed_agents s' uid = crashed_agents s1 uid"
    "tasks_for uid (scheduled s') = tasks_for uid (scheduled s1)"
    "alerts_for uid (alerts s') = alerts_for uid (alerts s1)"
    by blast
  with one f1 show ?case by simp
qed

lemma crashing_inD:
  assumes "crashing_in stats uid name"
  shows "\<exists>pre pid stat identity post.
     stats = pre @ (uid, name, (pid, stat), identity) # post \<and> truthy_stat stat \<and>
     (\<forall>e \<in> set pre. fst e \<noteq> uid) \<and> (\<forall>e \<in> set post. fst e \<noteq> uid)"
proof -
  from assms obtain entry where f: "filter (\<lambda>entry. fst entry = uid) stats = [entry]"
    and e: "case entry of (u, n, (pid, stat), identity) \<Rightarrow> n = name \<and> truthy_stat stat"
    by (auto simp: crashing_in_def split: list.splits)
  from f obtain pre post where d: "stats = pre @ entry # post"
    and pre: "\<forall>e \<in> set pre. fst e \<noteq> uid" and u: "fst entry = uid"
    and post: "[] = filter (\<lambda>entry. fst entry = uid) post"
    by (auto simp: filter_eq_Cons_iff)
  from post have post': "\<forall>e \<in> set post. fst e \<noteq> uid"
    by (metis (mono_tags, lifting) filter_empty_conv)
  obtain u n pid stat identity where en: "entry = (u, n, (pid, stat), identity)"
    by (metis prod.collapse)
  with e u have "entry = (uid, name, (pid, stat), identity)" "truthy_stat stat" by auto
  with d pre post' show ?thesis by blast
qed

lemma poll_step:
  assumes delivering: "\<forall>key context. health_send_alert env key context = None"
    and crashing: "crashing_in (aip_status_agents env r) uid name"
    and "dict_get (crashed_agents s) uid (- 1) + 1 = a"
  shows "\<exists>s'. monitor_agents env now (s\<lparr>registry := r\<rparr>) = (None, s') \<and>
     (if a < 5 then
        crashed_agents s' uid = Some a \<and>
        tasks_for uid (scheduled s') =
          tasks_for uid (scheduled s) @ [(now + timedelta_minutes (a * 5), uid, name)] \<and>
        alerts_for uid (alerts s') = alerts_for uid (alerts s)
      else
        crashed_agents s' uid = None \<and>
        tasks_for uid (scheduled s') = tasks_for uid (scheduled s) \<and>
        alerts_for uid (alerts s') =
          alerts_for uid (alerts s) @ [(uid, alert_key uid name, alert_context uid name)])"
proof -
  from crashing_inD[OF crashing] obtain pre pid stat identity post where
    d: "aip_status_agents env r = pre @ (uid, name, (pid, stat), identity) # post"
    and t: "truthy_stat stat"
    and pre: "\<forall>e \<in> set pre. fst e \<noteq> uid" and post: "\<forall>e \<in> set post. fst e \<noteq> uid"
    by blast
  let ?s0 = "s\<lparr>registry := r\<rparr>"
  from monitor_loop_others[OF delivering pre, of now ?s0] obtain s1 where
    l1: "monitor_loop env now pre ?s0 = (None, s1)"
    and c1: "crashed_agents s1 uid = crashed_agents s uid"
    and t1: "tasks_for uid (scheduled s1) = tasks_for uid (scheduled s)"
    and a1: "alerts_for uid (alerts s1) = alerts_for uid (alerts s)"
    by auto
  have at: "dict_get (crashed_agents s1) uid (- 1) + 1 = a"
    using assms(3) c1 by (simp add: dict_get_def)
  have "\<exists>s2. monitor_one env now (uid, name, (pid, stat), identity) s1 = (None, s2) \<and>
     (if a < 5 then
        crashed_agents s2 uid = Some a \<and>
        tasks_for uid (scheduled s2) =
          tasks_for uid (scheduled s1) @ [(now + timedelta_minutes (a * 5), uid, name)] \<and>
        alerts_for uid (alerts s2) = alerts_for uid (alerts s1)
      else
        crashed_agents s2 uid = None \<and>
        tasks_for uid (scheduled s2) = tasks_for uid (scheduled s1) \<and>
        alerts_for uid (alerts s2) =
          alerts_for uid (alerts s1) @ [(uid, alert_key uid name, alert_context uid name)])"
    using t at delivering
    by (auto simp: monitor_one_def Let_def send_alert_def dict_pop_def dict_get_def
          tasks_for_def alerts_for_def split: option.splits)
  then obtain s2 where
    l2: "monitor_one env now (uid, name, (pid, stat), identity) s1 = (None, s2)"
    and p2: "if a < 5 then
        crashed_agents s2 uid = Some a \<and>
        tasks_for uid (scheduled s2) =
          tasks_for uid (scheduled s1) @ [(now + timedelta_minutes (a * 5), uid, name)] \<and>
        alerts_for uid (alerts s2) = alerts_for uid (alerts s1)
      else
        crashed_agents s2 uid = None \<and>
        tasks_for uid (scheduled s2) = tasks_for uid (scheduled s1) \<and>
        alerts_for uid (alerts s2) =
          alerts_for uid (alerts s1) @ [(uid, alert_key uid name, alert_context uid name)]"
    by blast
  from monitor_loop_others[OF delivering post, of now s2] obtain s3 where
    l3: "monitor_loop env now post s2 = (None, s3)"
    and c3: "crashed_agents s3 uid = crashed_agents s2 uid"
    and t3: "tasks_for uid (scheduled s3) = tasks_for uid (scheduled s2)"
    and a3: "alerts_for uid (alerts s3) = alerts_for uid (alerts s2)"
    by auto
  have "monitor_agents env now ?s0 = (None, s3)"
    by (simp add: monitor_agents_def d monitor_loop_append l1 l2 l3)
  then show ?thesis
    using p2 c3 t3 a3 t1 a1 by (auto split: if_splits)
qed

lemma task_frame:
  "\<exists>e s'. restart_agent env u n (s\<lparr>registry := r\<rparr>) = (e, s') \<and>
     scheduled s' = scheduled s \<and> alerts s' = alerts s \<and>
     (u \<noteq> uid \<or> unsuccessful env r u \<longrightarrow> crashed_agents s' uid = crashed_agents s uid)"
  by (auto simp: unsuccessful_def restart_agent_def stop_agent_def Let_def dict_pop_def
           split: prod.splits option.splits)

lemma run_append:
  "run env (xs @ ys) s =
     (case run env xs s of (errors1, s1) \<Rightarrow>
        (case run env ys s1 of (errors2, s2) \<Rightarrow> (errors1 @ errors2, s2)))"
  by (induction xs arbitrary: s) (auto split: prod.splits option.splits)

lemma run_backoff:
  assumes delivering: "\<forall>key context. health_send_alert env key context = None"
    and "crash_looping env uid name evs"
    and "dict_get (crashed_agents s) uid (- 1) + 1 = a"
    and "a + int (length (poll_times evs)) \<le> 5"
  shows "\<exists>errors s'. run env evs s = (errors, s') \<and>
     alerts_for uid (alerts s') = alerts_for uid (alerts s) \<and>
     tasks_for uid (scheduled s') = tasks_for uid (scheduled s) @
        map (\<lambda>k. (poll_times evs ! k + timedelta_minutes ((a + int k) * 5), uid, name))
          [0..<length (poll_times evs)] \<and>
     dict_get (crashed_agents s') uid (- 1) + 1 = a + int (length (poll_times evs))"
  using assms(2-)
proof (induction evs arbitrary: s a)
  case Nil
  then show ?case by simp
next
  case (Cons ev evs)
  have rest: "crash_looping env uid name evs"
    using Cons.prems(1) by (simp add: crash_looping_def)
  show ?case
  proof (cases ev)
    case (Task u n r)
    from Cons.prems(1) have "u \<noteq> uid \<or> unsuccessful env r u"
      by (auto simp: crash_looping_def Task)
    with task_frame[where env=env and u=u and n=n and s=s and r=r and uid=uid] obtain e s1 where
      r1: "restart_agent env u n (s\<lparr>registry := r\<rparr>) = (e, s1)"
      and same: "crashed_agents s1 uid = crashed_agents s uid" "scheduled s1 = scheduled s"
        "alerts s1 = alerts s"
      by blast
    have n1: "dict_get (crashed_agents s1) uid (- 1) + 1 = a"
      using Cons.prems(2) same by (simp add: dict_get_def)
    have len: "a + int (length (poll_times evs)) \<le> 5"
      using Cons.prems(3) by (simp add: Task)
    from Cons.IH[OF rest n1 len] obtain errors s' where
      "run env evs s1 = (errors, s')"
      "alerts_for uid (alerts s') = alerts_for uid (alerts s1)"
      "tasks_for uid (scheduled s') = tasks_for uid (scheduled s1) @
        map (\<lambda>k. (poll_times evs ! k + timedelta_minutes ((a + int k) * 5), uid, name))
          [0..<length (poll_times evs)]"
      "dict_get (crashed_agents s') uid (- 1) + 1 = a + int (length (poll_times evs))"
      by blast
    then show ?thesis
      using r1 same by (simp add: Task run_event_def)
  next
    case (Poll now r)
    from Cons.prems(1) have cr: "crashing_in (aip_status_agents env r) uid name"
      by (simp add: crash_looping_def Poll)
    have a5: "a < 5" using Cons.prems(3) by (simp add: Poll)
    from poll_step[OF delivering cr Cons.prems(2), of now] a5 obtain s1 where
      r1: "monitor_agents env now (s\<lparr>registry := r\<rparr>) = (None, s1)"
      and c1: "crashed_agents s1 uid = Some a"
      and t1: "tasks_for uid (scheduled s1) =
          tasks_for uid (scheduled s) @ [(now + timedelta_minutes (a * 5), uid, name)]"
      and a1: "alerts_for uid (alerts s1) = alerts_for uid (alerts s)"
      by auto
    have n1: "dict_get (crashed_agents s1) uid (- 1) + 1 = a + 1"
      using c1 by (simp add: dict_get_def)
    have len: "(a + 1) + int (length (poll_times evs)) \<le> 5"
      using Cons.prems(3) by (simp add: Poll)
    from Cons.IH[OF rest n1 len] obtain errors s' where
      IH: "run env evs s1 = (errors, s')"
      "alerts_for uid (alerts s') = alerts_for uid (alerts s1)"
      "tasks_for uid (scheduled s') = tasks_for uid (scheduled s1) @
        map (\<lambda>k. (poll_times evs ! k + timedelta_minutes ((a + 1 + int k) * 5), uid, name))
          [0..<length (poll_times evs)]"
      "dict_get (crashed_agents s') uid (- 1) + 1 = a + 1 + int (length (poll_times evs))"
      by blast
    have "run env (ev # evs) s = (errors, s')"
      using r1 IH(1) by (simp add: Poll run_event_def)
    moreover have "alerts_for uid (alerts s') = alerts_for uid (alerts s)"
      using IH(2) a1 by simp
    moreover have "tasks_for uid (scheduled s') = tasks_for uid (scheduled s) @
        map (\<lambda>k. (poll_times (ev # evs) ! k + timedelta_minutes ((a + int k) * 5), uid, name))
          [0..<length (poll_times (ev # evs))]"
      using IH(3) t1 by (simp add: Poll map_upt_Suc algebra_simps del: upt_Suc)
    moreover have "dict_get (crashed_agents s') uid (- 1) + 1 =
        a + int (length (poll_times (ev # evs)))"
      using IH(4) by (simp add: Poll)
    ultimately show ?thesis by blast
  qed
qed

text \<open>
  Claim C2 as the source has it. A successful restart removes the CrashRecord, so
  the count only grows while the agent's restart tasks do not restart it; and
  the alert is sent unguarded. Take an agent with no CrashRecord that every poll
  finds crashed, while none of its own restart tasks that run restarts it (each
  finds it healthy or gets a status from the start) and alert delivery does not
  raise. Among any other agents and their restart tasks, the first five polls
  schedule one restart task each for it, the k-th (k = 0..4) at the time of its
  poll plus k * 5 minutes (of 60000000 microseconds), and send no alert about
  it; after them the stored count is 4. The sixth poll schedules no task for
  it, sends the alert whose key and context name the agent by name and uuid,
  and removes its CrashRecord.
\<close>

theorem supervisor_backoff_then_alert:
  assumes delivering: "\<forall>key context. health_send_alert env key context = None"
    and fresh: "crashed_agents s uid = None"
    and five: "length (poll_times evs) = 5"
    and looping: "crash_looping env uid name (evs @ [Poll now6 r6])"
  shows "\<exists>errors5 s5 errors6 s6.
     run env evs s = (errors5, s5) \<and>
     alerts_for uid (alerts s5) = alerts_for uid (alerts s) \<and>
     crashed_agents s5 uid = Some 4 \<and>
     tasks_for uid (scheduled s5) = tasks_for uid (scheduled s) @
       map (\<lambda>k. (poll_times evs ! k + int k * 5 * 60000000, uid, name)) [0..<5] \<and>
     run env (evs @ [Poll now6 r6]) s = (errors6, s6) \<and>
     tasks_for uid (scheduled s6) = tasks_for uid (scheduled s5) \<and>
     alerts_for uid (alerts s6) =
       alerts_for uid (alerts s) @
         [(uid, ''Agent '' @ name @ ''('' @ uid @ '') stopped unexpectedly'',
           ''Agent '' @ name @ ''('' @ uid @ '') stopped unexpectedly. Attempts to restart failed'')] \<and>
     crashed_agents s6 uid = None"
proof -
  have l5: "crash_looping env uid name evs"
    using looping by (simp add: crash_looping_def)
  have a0: "dict_get (crashed_agents s) uid (- 1) + 1 = 0"
    using fresh by (simp add: dict_get_def)
  have "0 + int (length (poll_times evs)) \<le> 5" using five by simp
  from run_backoff[OF delivering l5 a0 this] obtain errors5 s5 where
    p5: "run env evs s = (errors5, s5)"
    and al5: "alerts_for uid (alerts s5) = alerts_for uid (alerts s)"
    and sch5: "tasks_for uid (scheduled s5) = tasks_for uid (scheduled s) @
        map (\<lambda>k. (poll_times evs ! k + timedelta_minutes ((0 + int k) * 5), uid, name))
          [0..<length (poll_times evs)]"
    and n5: "dict_get (crashed_agents s5) uid (- 1) + 1 = 0 + int (length (poll_times evs))"
    by blast
  have rec5: "crashed_agents s5 uid = Some 4"
    using n5 five by (auto simp: dict_get_def split: option.splits)
  have at5: "dict_get (crashed_agents s5) uid (- 1) + 1 = 5"
    using n5 five by simp
  from looping have cr: "crashing_in (aip_status_agents env r6) uid name"
    by (simp add: crash_looping_def)
  from poll_step[OF delivering cr at5, of now6] obtain s6 where
    p6: "monitor_agents env now6 (s5\<lparr>registry := r6\<rparr>) = (None, s6)"
    and c6: "crashed_agents s6 uid = None"
    and t6: "tasks_for uid (scheduled s6) = tasks_for uid (scheduled s5)"
    and a6: "alerts_for uid (alerts s6) =
          alerts_for uid (alerts s5) @ [(uid, alert_key uid name, alert_context uid name)]"
    by auto
  have r6: "run env (evs @ [Poll now6 r6]) s = (errors5, s6)"
    by (simp add: run_append p5 p6 run_event_def)
  show ?thesis
    using p5 al5 rec5 sch5 r6 t6 a6 c6 five
    by (simp add: alert_key_def alert_context_def timedelta_minutes_def)
qed

theorem supervisor_backoff_then_alert_witness:
  "(\<forall>key context. health_send_alert (one_agent_env (Some 1) (\<lambda>k c. None)) key context = None) \<and>
   crashed_agents idle_control ''a1'' = None \<and>
   length (poll_times five_polls) = 5 \<and>
   crash_looping (one_agent_env (Some 1) (\<lambda>k c. None)) ''a1'' ''listeneragent-3.3''
     (five_polls @ [Poll 3000000000 (Some 1)]) \<and>
   (\<exists>errors5 s5 errors6 s6.
     run (one_agent_env (Some 1) (\<lambda>k c. None)) five_polls idle_control = (errors5, s5) \<and>
     crashed_agents s5 ''a1'' = Some 4 \<and>
     alerts_for ''a1'' (alerts s5) = [] \<and>
     tasks_for ''a1'' (scheduled s5) =
       [(0, ''a1'', ''listeneragent-3.3''), (900000000, ''a1'', ''listeneragent-3.3''),
        (1800000000, ''a1'', ''listeneragent-3.3''), (2700000000, ''a1'', ''listeneragent-3.3''),
        (3600000000, ''a1'', ''listeneragent-3.3'')] \<and>
     run (one_agent_env (Some 1) (\<lambda>k c. None)) (five_polls @ [Poll 3000000000 (Some 1)])
       idle_control = (errors6, s6) \<and>
     tasks_for ''a1'' (scheduled s6) = tasks_for ''a1'' (scheduled s5) \<and>
     alerts_for ''a1'' (alerts s6) =
       [(''a1'', ''Agent listeneragent-3.3(a1) stopped unexpectedly'',
         ''Agent listeneragent-3.3(a1) stopped unexpectedly. Attempts to restart failed'')] \<and>
     crashed_agents s6 ''a1'' = None)"
proof -
  let ?env = "one_agent_env (Some 1) (\<lambda>k c. None)"
  have h1: "\<forall>key context. health_send_alert ?env key context = None"
    by (simp add: one_agent_env_def)
  have h2: "crashed_agents idle_control ''a1'' = None" by (simp add: idle_control_def)
  have h3: "length (poll_times five_polls) = 5" by (simp add: five_polls_def)
  have h4: "crash_looping ?env ''a1'' ''listeneragent-3.3'' (five_polls @ [Poll 3000000000 (Some 1)])"
    by (simp add: crash_looping_def crashing_in_def unsuccessful_def truthy_stat_def
          five_polls_def one_agent_env_def)
  have up: "[0..<5] = [0, 1, 2, 3, 4]" by (simp add: upt_rec)
  from supervisor_backoff_then_alert[OF h1 h2 h3 h4] obtain errors5 s5 errors6 s6 where
    r5: "run ?env five_polls idle_control = (errors5, s5)"
    and al5: "alerts_for ''a1'' (alerts s5) = alerts_for ''a1'' (alerts idle_control)"
    and c5: "crashed_agents s5 ''a1'' = Some 4"
    and sch5: "tasks_for ''a1'' (scheduled s5) = tasks_for ''a1'' (scheduled idle_control) @
       map (\<lambda>k. (poll_times five_polls ! k + int k * 5 * 60000000, ''a1'', ''listeneragent-3.3''))
         [0..<5]"
    and r6: "run ?env (five_polls @ [Poll 3000000000 (Some 1)]) idle_control = (errors6, s6)"
    and sch6: "tasks_for ''a1'' (scheduled s6) = tasks_for ''a1'' (scheduled s5)"
    and al6: "alerts_for ''a1'' (alerts s6) = alerts_for ''a1'' (alerts idle_control) @
       [(''a1'', ''Agent '' @ ''listeneragent-3.3'' @ ''('' @ ''a1'' @ '') stopped unexpectedly'',
         ''Agent '' @ ''listeneragent-3.3'' @ ''('' @ ''a1'' @
           '') stopped unexpectedly. Attempts to restart failed'')]"
    and c6: "crashed_agents s6 ''a1'' = None"
    by blast
  have al5': "alerts_for ''a1'' (alerts s5) = []"
    using al5 by (simp add: idle_control_def alerts_for_def)
  have sch5': "tasks_for ''a1'' (scheduled s5) =
     [(0, ''a1'', ''listeneragent-3.3''), (900000000, ''a1'', ''listeneragent-3.3''),
      (1800000000, ''a1'', ''listeneragent-3.3''), (2700000000, ''a1'', ''listeneragent-3.3''),
      (3600000000, ''a1'', ''listeneragent-3.3'')]"
    using sch5 by (simp add: up five_polls_def idle_control_def timedelta_minutes_def tasks_for_def)
  have al6': "alerts_for ''a1'' (alerts s6) =
     [(''a1'', ''Agent listeneragent-3.3(a1) stopped unexpectedly'',
       ''Agent listeneragent-3.3(a1) stopped unexpectedly. Attempts to restart failed'')]"
    using al6 by (simp add: idle_control_def alerts_for_def)
  show ?thesis
    using h1 h2 h3 h4 r5 c5 al5' sch5' r6 sch6 al6' c6 by blast
qed

text \<open>
  The claim as written fails. An agent that every poll finds crashed, but whose
  restart task gets no status from the start each time, is given six restart
  tasks by six polls, each with no delay, and no alert; its count is back at 0.
  And with a sink that raises, the sixth poll delivers no alert and leaves the
  CrashRecord at 4.
\<close>

theorem restart_success_counterexample:
  "fst (run (one_agent_env None (\<lambda>k c. None)) restart_loop idle_control) = [] \<and>
   scheduled (snd (run (one_agent_env None (\<lambda>k c. None)) restart_loop idle_control)) =
     [(0, ''a1'', ''listeneragent-3.3''), (600000000, ''a1'', ''listeneragent-3.3''),
      (1200000000, ''a1'', ''listeneragent-3.3''), (1800000000, ''a1'', ''listeneragent-3.3''),
      (2400000000, ''a1'', ''listeneragent-3.3''), (3000000000, ''a1'', ''listeneragent-3.3'')] \<and>
   alerts (snd (run (one_agent_env None (\<lambda>k c. None)) restart_loop idle_control)) = [] \<and>
   crashed_agents (snd (run (one_agent_env None (\<lambda>k c. None)) restart_loop idle_control)) ''a1'' =
     Some 0 \<and>
   alerts (snd (run (one_agent_env (Some 1) (\<lambda>k c. Some (DeliveryError k)))
                  (five_polls @ [Poll 3000000000 (Some 1)]) idle_control)) = [] \<and>
   crashed_agents (snd (run (one_agent_env (Some 1) (\<lambda>k c. Some (DeliveryError k)))
                  (five_polls @ [Poll 3000000000 (Some 1)]) idle_control)) ''a1'' = Some 4"
  by (simp add: restart_loop_def five_polls_def idle_control_def one_agent_env_def run_event_def
        monitor_agents_def monitor_one_def restart_agent_def stop_agent_def send_alert_def
        truthy_stat_def dict_get_def dict_pop_def timedelta_minutes_def Let_def)

subsection \<open>The restart task\<close>



text \<open>
  Claim C10. The successful branch of the restart task removes the uuid with a
  \<open>pop\<close> that has no default. With a CrashRecord present the task returns
  normally and the record is removed; with no CrashRecord the task raises
  \<open>KeyError\<close>, after the stop and the successful start have been carried out.
\<close>

theorem restart_pop_without_record:
  assumes unhealthy: "truthy_stat (snd (aip_agent_status env (registry s) uid))"
    and started: "aip_start_agent env (aip_stop_agent env (registry s) uid) uid = ((pid2, None), r2)"
  shows "(crashed_agents s uid = None \<longrightarrow>
            restart_agent env uid name s =
              (Some (KeyError uid),
               s\<lparr>registry := r2,
                 router := router s @ [(''agentstop'', [aip_agent_identity env (registry s) uid])]\<rparr>)) \<and>
         (crashed_agents s uid \<noteq> None \<longrightarrow>
            restart_agent env uid name s =
              (None,
               s\<lparr>registry := r2,
                 router := router s @ [(''agentstop'', [aip_agent_identity env (registry s) uid])],
                 crashed_agents := (crashed_agents s)(uid := None)\<rparr>))"
proof -
  obtain pid1 stat1 where st: "aip_agent_status env (registry s) uid = (pid1, stat1)"
    by (cases "aip_agent_status env (registry s) uid")
  with unhealthy have t: "truthy_stat stat1" by simp
  show ?thesis
    using st t started
    by (auto simp: restart_agent_def Let_def stop_agent_def dict_pop_def)
qed

theorem restart_pop_without_record_witness:
  "truthy_stat (snd (aip_agent_status (one_agent_env None (\<lambda>k c. None)) (registry idle_control) ''a1'')) \<and>
   aip_start_agent (one_agent_env None (\<lambda>k c. None))
      (aip_stop_agent (one_agent_env None (\<lambda>k c. None)) (registry idle_control) ''a1'') ''a1'' =
      ((Some 4243, None), None) \<and>
   crashed_agents idle_control ''a1'' = None \<and>
   restart_agent (one_agent_env None (\<lambda>k c. None)) ''a1'' ''listeneragent-3.3'' idle_control =
     (Some (KeyError ''a1''),
      idle_control\<lparr>registry := None, router := [(''agentstop'', [Some ''listener''])]\<rparr>) \<and>
   crashed_agents crashed_once_control ''a1'' \<noteq> None \<and>
   restart_agent (one_agent_env None (\<lambda>k c. None)) ''a1'' ''listeneragent-3.3'' crashed_once_control =
     (None,
      crashed_once_control\<lparr>registry := None, router := [(''agentstop'', [Some ''listener''])],
        crashed_agents := Map.empty\<rparr>)"
proof -
  let ?ok = "one_agent_env None (\<lambda>k c. None)"
  have h1: "truthy_stat (snd (aip_agent_status ?ok (registry idle_control) ''a1''))"
    by (simp add: one_agent_env_def idle_control_def truthy_stat_def)
  have h2: "aip_start_agent ?ok (aip_stop_agent ?ok (registry idle_control) ''a1'') ''a1'' =
      ((Some 4243, None), None)"
    by (simp add: one_agent_env_def)
  have h3: "crashed_agents idle_control ''a1'' = None" by (simp add: idle_control_def)
  have k1: "truthy_stat (snd (aip_agent_status ?ok (registry crashed_once_control) ''a1''))"
    by (simp add: one_agent_env_def crashed_once_control_def truthy_stat_def)
  have k2: "aip_start_agent ?ok (aip_stop_agent ?ok (registry crashed_once_control) ''a1'') ''a1'' =
      ((Some 4243, None), None)"
    by (simp add: one_agent_env_def)
  have k3: "crashed_agents crashed_once_control ''a1'' \<noteq> None"
    by (simp add: crashed_once_control_def)
  have id: "aip_agent_identity ?ok r ''a1'' = Some ''listener''" for r
    by (simp add: one_agent_env_def)
  have a: "restart_agent ?ok ''a1'' ''listeneragent-3.3'' idle_control =
     (Some (KeyError ''a1''),
      idle_control\<lparr>registry := None, router := [(''agentstop'', [Some ''listener''])]\<rparr>)"
    using restart_pop_without_record[OF h1 h2, of "''listeneragent-3.3''"] h3 id
    by (simp add: idle_control_def)
  have b: "restart_agent ?ok ''a1'' ''listeneragent-3.3'' crashed_once_control =
     (None,
      crashed_once_control\<lparr>registry := None, router := [(''agentstop'', [Some ''listener''])],
        crashed_agents := Map.empty\<rparr>)"
    using restart_pop_without_record[OF k1 k2, of "''listeneragent-3.3''"] k3 id
    by (simp add: crashed_once_control_def)
  show ?thesis using h1 h2 h3 k3 a b by blast
qed

subsection \<open>Alert delivery that fails\<close>

text \<open>
  Claim C9 as the source has it. \<open>send_alert\<close> calls the health sink
  unguarded and \<open>_monitor_agents\<close> calls \<open>send_alert\<close> unguarded. So an error
  raised by the sink while alerting for an agent leaves the poll: the loop stops
  at that agent, its CrashRecord stays, and the agents after it are not looked
  at. When the sink delivers every alert, the poll never raises.
\<close>

theorem alert_failure_stops_poll:
  "(monitor_loop env now pre s = (None, s1) \<and> truthy_stat stat \<and>
    crashed_agents s1 uid = Some c \<and> 4 \<le> c \<and>
    health_send_alert env (alert_key uid name) (alert_context uid name) = Some e
    \<longrightarrow> monitor_loop env now (pre @ (uid, name, (pid, stat), identity) # post) s = (Some e, s1)) \<and>
   ((\<forall>key context. health_send_alert env key context = None)
    \<longrightarrow> fst (monitor_agents env now s) = None)"
proof (intro conjI impI)
  assume a: "monitor_loop env now pre s = (None, s1) \<and> truthy_stat stat \<and>
    crashed_agents s1 uid = Some c \<and> 4 \<le> c \<and>
    health_send_alert env (alert_key uid name) (alert_context uid name) = Some e"
  then have "monitor_one env now (uid, name, (pid, stat), identity) s1 = (Some e, s1)"
    by (simp add: monitor_one_def Let_def dict_get_def send_alert_def)
  with a show "monitor_loop env now (pre @ (uid, name, (pid, stat), identity) # post) s = (Some e, s1)"
    by (simp add: monitor_loop_append)
next
  assume "\<forall>key context. health_send_alert env key context = None"
  then show "fst (monitor_agents env now s) = None"
    by (simp add: monitor_agents_def monitor_loop_delivering)
qed

theorem alert_failure_stops_poll_witness:
  "monitor_loop (two_agent_env (\<lambda>key context. Some (DeliveryError key))) 0 [] exhausted_control =
      (None, exhausted_control) \<and>
   truthy_stat (Some 1) \<and> crashed_agents exhausted_control ''a1'' = Some 4 \<and>
   health_send_alert (two_agent_env (\<lambda>key context. Some (DeliveryError key)))
      (alert_key ''a1'' ''listeneragent-3.3'') (alert_context ''a1'' ''listeneragent-3.3'') =
      Some (DeliveryError (alert_key ''a1'' ''listeneragent-3.3'')) \<and>
   monitor_loop (two_agent_env (\<lambda>key context. Some (DeliveryError key))) 0
      ([] @ (''a1'', ''listeneragent-3.3'', (Some 4242, Some 1), ''listener'') #
         [(''a2'', ''forwarder-5.1'', (Some 4250, Some 1), ''forwarder'')]) exhausted_control =
      (Some (DeliveryError (alert_key ''a1'' ''listeneragent-3.3'')), exhausted_control) \<and>
   (\<forall>key context. health_send_alert (two_agent_env (\<lambda>key context. None)) key context = None) \<and>
   fst (monitor_agents (two_agent_env (\<lambda>key context. None)) 0 exhausted_control) = None"
proof -
  let ?bad = "two_agent_env (\<lambda>key context. Some (DeliveryError key))"
  let ?ok = "two_agent_env (\<lambda>key context. None)"
  have h1: "monitor_loop ?bad 0 [] exhausted_control = (None, exhausted_control)" by simp
  have h2: "truthy_stat (Some 1)" by (simp add: truthy_stat_def)
  have h3: "crashed_agents exhausted_control ''a1'' = Some 4" by (simp add: exhausted_control_def)
  have h4: "health_send_alert ?bad
      (alert_key ''a1'' ''listeneragent-3.3'') (alert_context ''a1'' ''listeneragent-3.3'') =
      Some (DeliveryError (alert_key ''a1'' ''listeneragent-3.3''))"
    by (simp add: two_agent_env_def)
  have h5: "\<forall>key context. health_send_alert ?ok key context = None"
    by (simp add: two_agent_env_def)
  have a: "monitor_loop ?bad 0
      ([] @ (''a1'', ''listeneragent-3.3'', (Some 4242, Some 1), ''listener'') #
         [(''a2'', ''forwarder-5.1'', (Some 4250, Some 1), ''forwarder'')]) exhausted_control =
      (Some (DeliveryError (alert_key ''a1'' ''listeneragent-3.3'')), exhausted_control)"
    using alert_failure_stops_poll[of ?bad 0 "[]" exhausted_control exhausted_control "Some 1" "''a1''" 4
        "''listeneragent-3.3''" "DeliveryError (alert_key ''a1'' ''listeneragent-3.3'')"
        "Some 4242" "''listener''" "[(''a2'', ''forwarder-5.1'', (Some 4250, Some 1), ''forwarder'')]"]
      h1 h2 h3 h4 by blast
  have b: "fst (monitor_agents ?ok 0 exhausted_control) = None"
    using alert_failure_stops_poll[of ?ok 0 "[]" exhausted_control] h5 by blast
  show ?thesis using h1 h2 h3 h4 h5 a b by blast
qed

text \<open>
  The claim as written fails: with a sink that raises, a poll over two crashed
  agents, the first with its attempts used up, raises the sink's error and leaves
  the second agent without a CrashRecord and without a restart task.
\<close>

theorem alert_failure_counterexample:
  "monitor_agents (two_agent_env (\<lambda>key context. Some (DeliveryError key))) 0 exhausted_control =
     (Some (DeliveryError (alert_key ''a1'' ''listeneragent-3.3'')), exhausted_control) \<and>
   crashed_agents exhausted_control ''a2'' = None \<and>
   scheduled exhausted_control = []"
  by (simp add: monitor_agents_def two_agent_env_def exhausted_control_def monitor_one_def
        truthy_stat_def dict_get_def send_alert_def Let_def)


section \<open>Properties of the transfer session\<close>

subsection \<open>The receiver against the sender of the spec\<close>

lemma chunks_empty: "chunks n [] = []"
  by (simp add: chunks.simps)

lemma chunks_step: "0 < n \<Longrightarrow> xs \<noteq> [] \<Longrightarrow> chunks n xs = take n xs # chunks n (drop n xs)"
  by (subst chunks.simps) simp

lemma transfer_round_sender_done:
  "remaining (peer s) = [] \<Longrightarrow>
   transfer_round H (sender_respond H) (Fetch C) Checksum s = Break (s\<lparr>sent := sent s @ [Fetch C]\<rparr>)"
  by (simp add: transfer_round_def sender_respond_def Let_def)

lemma transfer_round_sender_chunk:
  assumes "remaining (peer s) \<noteq> []" "0 < C" "take C (remaining (peer s)) \<noteq> ''complete''"
    "sha512 s = transmitted (peer s)"
  shows "transfer_round H (sender_respond H) (Fetch C) Checksum s =
     Continue (s\<lparr>peer := \<lparr>remaining = drop C (remaining (peer s)),
                           transmitted = transmitted (peer s) @ take C (remaining (peer s))\<rparr>,
                 sent := sent s @ [Fetch C, Checksum],
                 sha512 := sha512 s @ take C (remaining (peer s)),
                 store := store s @ take C (remaining (peer s)),
                 checksum := Some (H (transmitted (peer s) @ take C (remaining (peer s))))\<rparr>)"
  using assms by (simp add: transfer_round_def sender_respond_def Let_def)

lemma transfer_from_sender:
  assumes "0 < C"
    and "''complete'' \<notin> set (chunks C (remaining (peer s)))"
    and "length (chunks C (remaining (peer s))) < fuel"
    and "sha512 s = transmitted (peer s)"
  shows "transfer_loop fuel H (sender_respond H) (Fetch C) Checksum s =
     Some (None,
       s\<lparr>peer := \<lparr>remaining = [], transmitted = transmitted (peer s) @ remaining (peer s)\<rparr>,
         sent := sent s @ concat (replicate (length (chunks C (remaining (peer s)))) [Fetch C, Checksum])
                   @ [Fetch C],
         sha512 := sha512 s @ remaining (peer s),
         store := store s @ remaining (peer s),
         checksum := (if remaining (peer s) = [] then checksum s
                      else Some (H (transmitted (peer s) @ remaining (peer s))))\<rparr>)"
  using assms
proof (induction fuel arbitrary: s)
  case 0
  then show ?case by simp
next
  case (Suc fuel)
  show ?case
  proof (cases "remaining (peer s) = []")
    case True
    then show ?thesis
      by (simp add: transfer_round_sender_done chunks_empty)
  next
    case False
    let ?c = "take C (remaining (peer s))"
    let ?s1 = "s\<lparr>peer := \<lparr>remaining = drop C (remaining (peer s)),
                           transmitted = transmitted (peer s) @ ?c\<rparr>,
                 sent := sent s @ [Fetch C, Checksum],
                 sha512 := sha512 s @ ?c,
                 store := store s @ ?c,
                 checksum := Some (H (transmitted (peer s) @ ?c))\<rparr>"
    have ch: "chunks C (remaining (peer s)) = ?c # chunks C (drop C (remaining (peer s)))"
      using chunks_step[OF Suc.prems(1) False] .
    have nc: "?c \<noteq> ''complete''" using Suc.prems(2) ch by auto
    have rd: "transfer_round H (sender_respond H) (Fetch C) Checksum s = Continue ?s1"
      using transfer_round_sender_chunk[OF False Suc.prems(1) nc Suc.prems(4)] .
    have p1: "''complete'' \<notin> set (chunks C (remaining (peer ?s1)))"
      using Suc.prems(2) ch by auto
    have p2: "length (chunks C (remaining (peer ?s1))) < fuel"
      using Suc.prems(3) ch by auto
    have p3: "sha512 ?s1 = transmitted (peer ?s1)"
      using Suc.prems(4) by simp
    show ?thesis
      using Suc.IH[OF Suc.prems(1) p1 p2 p3] rd ch False
      by (auto simp: take_all)
  qed
qed

text \<open>
  Claim C8. For an empty artifact the sender answers the first fetch with the
  completion sentinel, and the session ends there: one fetch request sent, no
  checksum request, nothing written to the file, nothing fed to the hash.
\<close>

theorem empty_artifact_completes_at_once:
  "transfer_loop (Suc fuel) H (sender_respond H) (Fetch C) Checksum
     (new_session \<lparr>remaining = [], transmitted = []\<rparr>) =
   Some (None,
     \<lparr>peer = \<lparr>remaining = [], transmitted = []\<rparr>,
      sent = [Fetch C], sha512 = [], store = [], checksum = None,
      store_closed = False, channel_closed = False\<rparr>)"
  by (simp add: transfer_round_def sender_respond_def new_session_def Let_def)

text \<open>
  Claim C1 as the source has it. The receiver takes any message equal to
  \<open>b"complete"\<close> for the end of the stream. For a chunk size of at least one
  byte and an artifact none of whose chunks is that byte string, the transfer
  ends once enough passes are allowed, the file holds exactly the artifact, and
  the digest accepted at the last checksum exchange (there is one unless the
  artifact is empty) is the hash of the artifact.
\<close>

theorem transfer_round_trip:
  assumes "0 < C"
    and "''complete'' \<notin> set (chunks C data)"
    and "length (chunks C data) < fuel"
  shows "transfer_loop fuel H (sender_respond H) (Fetch C) Checksum
           (new_session \<lparr>remaining = data, transmitted = []\<rparr>) =
         Some (None,
           \<lparr>peer = \<lparr>remaining = [], transmitted = data\<rparr>,
            sent = concat (replicate (length (chunks C data)) [Fetch C, Checksum]) @ [Fetch C],
            sha512 = data, store = data,
            checksum = (if data = [] then None else Some (H data)),
            store_closed = False, channel_closed = False\<rparr>)"
  using transfer_from_sender[of C "new_session \<lparr>remaining = data, transmitted = []\<rparr>" fuel H] assms
  by (simp add: new_session_def)

theorem transfer_round_trip_witness:
  "(0::nat) < 4 \<and>
   ''complete'' \<notin> set (chunks 4 ''abcdefghij'') \<and>
   length (chunks 4 ''abcdefghij'') < 4 \<and>
   transfer_loop 4 stand_in_digest (sender_respond stand_in_digest) (Fetch 4) Checksum
           (new_session \<lparr>remaining = ''abcdefghij'', transmitted = []\<rparr>) =
         Some (None,
           \<lparr>peer = \<lparr>remaining = [], transmitted = ''abcdefghij''\<rparr>,
            sent = [Fetch 4, Checksum, Fetch 4, Checksum, Fetch 4, Checksum, Fetch 4],
            sha512 = ''abcdefghij'', store = ''abcdefghij'',
            checksum = Some ''jihgfedcba'',
            store_closed = False, channel_closed = False\<rparr>)"
proof -
  have ch: "chunks 4 ''abcdefghij'' = [''abcd'', ''efgh'', ''ij'']"
    by (simp add: chunks.simps)
  have h1: "(0::nat) < 4" by simp
  have h2: "''complete'' \<notin> set (chunks 4 ''abcdefghij'')" by (simp add: ch)
  have h3: "length (chunks 4 ''abcdefghij'') < 4" by (simp add: ch)
  show ?thesis
    using transfer_round_trip[OF h1 h2 h3, of stand_in_digest] h2 h3
    by (simp add: ch stand_in_digest_def)
qed

text \<open>
  The claim as written fails for the artifact that is the eight bytes
  \<open>complete\<close>: its only chunk is taken for the sentinel and the file stays
  empty.
\<close>

theorem sentinel_chunk_counterexample:
  "transfer_loop 2 stand_in_digest (sender_respond stand_in_digest) (Fetch 1024) Checksum
     (new_session \<lparr>remaining = ''complete'', transmitted = []\<rparr>) =
   Some (None,
     \<lparr>peer = \<lparr>remaining = [], transmitted = ''complete''\<rparr>,
      sent = [Fetch 1024], sha512 = [], store = [], checksum = None,
      store_closed = False, channel_closed = False\<rparr>)"
  by (simp add: numeral_2_eq_2 transfer_round_def sender_respond_def new_session_def Let_def)


section \<open>Properties of the install\<close>

subsection \<open>A session that raises\<close>

lemma transfer_loop_after_rounds:
  "rounds k H respond rf rc s0 = Some s \<Longrightarrow>
   transfer_loop (k + n) H respond rf rc s0 = transfer_loop n H respond rf rc s"
  by (induction k arbitrary: s0) (auto split: step.splits)

lemma transfer_loop_raise_after_rounds:
  assumes "rounds k H respond rf rc s0 = Some s"
    and "transfer_round H respond rf rc s = Raise e s1"
    and "k < fuel"
  shows "transfer_loop fuel H respond rf rc s0 = Some (Some e, s1)"
proof -
  from assms(3) obtain n where "fuel = k + Suc n"
    by (metis less_imp_Suc_add add_Suc_right)
  then show ?thesis
    using transfer_loop_after_rounds[OF assms(1), of "Suc n"] assms(2) by simp
qed

lemma discard_tmpdir:
  "rmtree (write_file (write_file (plat\<lparr>dirs := (dirs plat)(d \<mapsto> Map.empty)\<rparr>) d file []) d file content) d =
   plat\<lparr>dirs := (dirs plat)(d := None)\<rparr>"
  by (simp add: rmtree_def write_file_def)

lemma install_agent_raise:
  assumes admitted: "identity_exists_but_no_force plat vip_identity force = Inr (agent_uuid, existed)"
    and named: "basename filename \<notin> {[], ''.'', ''..''}"
    and matched: "rounds k H respond (Fetch 1024) Checksum (new_session p0) = Some s"
    and raised: "transfer_round H respond (Fetch 1024) Checksum s = Raise e s1"
    and fuel: "k < fuel"
  shows "install_agent fuel H respond ch filename p0 vip_identity force plat =
     Some (Inl e, plat\<lparr>dirs := (dirs plat)(TmpDir (fresh_tmpdir ch) := None)\<rparr>,
           Some (s1\<lparr>store_closed := True, channel_closed := True\<rparr>))"
  using admitted named transfer_loop_raise_after_rounds[OF matched raised fuel]
  by (simp add: install_agent_def Let_def discard_tmpdir)

lemma demo_lookup:
  "identity_exists demo_platform ''listener'' = Some ''u-1''"
  "identity_exists demo_platform ''historian'' = None"
  by (simp_all add: identity_exists_def list_agents_def platform_list_agents_def demo_platform_def
        platform_agent_identity_def platform_agent_def Let_def)

lemma demo_admitted:
  "identity_exists_but_no_force demo_platform (Some ''historian'') False = Inr (None, False)"
  by (simp add: identity_exists_but_no_force_def truthy_str_def demo_lookup)

lemma demo_basename: "basename ''/home/volttron/listeneragent-3.3.whl'' = ''listeneragent-3.3.whl''"
  by (simp add: basename_def)

lemma demo_round:
  "rounds (Suc 0) stand_in_digest scripted (Fetch 1024) Checksum
      (new_session (Some ''abcd'' # Some ''dcba'' # rest)) =
   Some \<lparr>peer = rest, sent = [Fetch 1024, Checksum], sha512 = ''abcd'', store = ''abcd'',
         checksum = Some ''dcba'', store_closed = False, channel_closed = False\<rparr>"
  by (simp add: transfer_round_def scripted_def new_session_def stand_in_digest_def Let_def)

text \<open>
  Claim C4. After any number of passes with matching digests, a digest that
  differs from the receiver's own makes the install raise \<open>AssertionError\<close>:
  the checksum request that got the wrong digest is the last request sent, file
  and channel are closed, the temporary directory with the partial file is gone,
  and registry, data directories and tarballs are as they were before the call.
\<close>

theorem checksum_mismatch_aborts:
  assumes admitted: "identity_exists_but_no_force plat vip_identity force = Inr (agent_uuid, existed)"
    and named: "basename filename \<notin> {[], ''.'', ''..''}"
    and matched: "rounds k H respond (Fetch 1024) Checksum (new_session p0) = Some s"
    and fetched: "respond (peer s) (Fetch 1024) = (p1, Some chunk)"
    and payload: "chunk \<noteq> ''complete''"
    and replied: "respond p1 Checksum = (p2, Some digest)"
    and differs: "digest \<noteq> H (sha512 s @ chunk)"
    and fuel: "k < fuel"
  shows "install_agent fuel H respond ch filename p0 vip_identity force plat =
     Some (Inl AssertionError,
           plat\<lparr>dirs := (dirs plat)(TmpDir (fresh_tmpdir ch) := None)\<rparr>,
           Some (s\<lparr>peer := p2, sent := sent s @ [Fetch 1024, Checksum],
                   sha512 := sha512 s @ chunk, store := store s @ chunk,
                   checksum := Some digest, store_closed := True, channel_closed := True\<rparr>))"
proof -
  have "transfer_round H respond (Fetch 1024) Checksum s =
      Raise AssertionError
        (s\<lparr>peer := p2, sent := sent s @ [Fetch 1024, Checksum],
           sha512 := sha512 s @ chunk, store := store s @ chunk, checksum := Some digest\<rparr>)"
    using fetched payload replied differs by (simp add: transfer_round_def Let_def)
  from install_agent_raise[OF admitted named matched this fuel] show ?thesis by simp
qed

theorem checksum_mismatch_aborts_witness:
  "identity_exists_but_no_force demo_platform (Some ''historian'') False = Inr (None, False) \<and>
   basename ''/home/volttron/listeneragent-3.3.whl'' \<notin> {[], ''.'', ''..''} \<and>
   rounds (Suc 0) stand_in_digest scripted (Fetch 1024) Checksum
      (new_session [Some ''abcd'', Some ''dcba'', Some ''efgh'', Some ''bogus'']) =
     Some \<lparr>peer = [Some ''efgh'', Some ''bogus''], sent = [Fetch 1024, Checksum],
           sha512 = ''abcd'', store = ''abcd'', checksum = Some ''dcba'',
           store_closed = False, channel_closed = False\<rparr> \<and>
   scripted [Some ''efgh'', Some ''bogus''] (Fetch 1024) = ([Some ''bogus''], Some ''efgh'') \<and>
   ''efgh'' \<noteq> ''complete'' \<and>
   scripted [Some ''bogus''] Checksum = ([], Some ''bogus'') \<and>
   ''bogus'' \<noteq> stand_in_digest (''abcd'' @ ''efgh'') \<and>
   Suc 0 < 2 \<and>
   install_agent 2 stand_in_digest scripted demo_choices ''/home/volttron/listeneragent-3.3.whl''
       [Some ''abcd'', Some ''dcba'', Some ''efgh'', Some ''bogus''] (Some ''historian'') False
       demo_platform =
     Some (Inl AssertionError,
           demo_platform\<lparr>dirs := (dirs demo_platform)(TmpDir ''/tmp/tmpa1b2'' := None)\<rparr>,
           Some \<lparr>peer = [], sent = [Fetch 1024, Checksum, Fetch 1024, Checksum],
                 sha512 = ''abcdefgh'', store = ''abcdefgh'', checksum = Some ''bogus'',
                 store_closed = True, channel_closed = True\<rparr>)"
proof -
  let ?s = "\<lparr>peer = [Some ''efgh'', Some ''bogus''], sent = [Fetch 1024, Checksum],
           sha512 = ''abcd'', store = ''abcd'', checksum = Some ''dcba'',
           store_closed = False, channel_closed = False\<rparr>"
  have h1: "identity_exists_but_no_force demo_platform (Some ''historian'') False = Inr (None, False)"
    by (rule demo_admitted)
  have h2: "basename ''/home/volttron/listeneragent-3.3.whl'' \<notin> {[], ''.'', ''..''}"
    by (simp add: demo_basename)
  have h3: "rounds (Suc 0) stand_in_digest scripted (Fetch 1024) Checksum
      (new_session [Some ''abcd'', Some ''dcba'', Some ''efgh'', Some ''bogus'']) = Some ?s"
    by (rule demo_round)
  have h4: "scripted (peer ?s) (Fetch 1024) = ([Some ''bogus''], Some ''efgh'')"
    by (simp add: scripted_def)
  have h5: "''efgh'' \<noteq> ''complete''" by simp
  have h6: "scripted [Some ''bogus''] Checksum = ([], Some ''bogus'')" by (simp add: scripted_def)
  have h7: "''bogus'' \<noteq> stand_in_digest (sha512 ?s @ ''efgh'')" by (simp add: stand_in_digest_def)
  have h8: "Suc 0 < 2" by simp
  show ?thesis
    using checksum_mismatch_aborts[OF h1 h2 h3 h4 h5 h6 h7 h8, of demo_choices] h1 h2 h3 h4 h6 h7
    by (simp add: demo_choices_def)
qed

text \<open>
  Claim C5. A receive that gets no message in time, be it for a chunk or for a
  digest and after any number of good passes, makes the install raise \<open>Timeout\<close>
  with no further request sent. And whenever the install returns a uuid or
  raises \<open>Timeout\<close> or \<open>AssertionError\<close>, file and channel are closed and the
  temporary directory is gone.
\<close>

theorem timeout_aborts_and_releases:
  "(identity_exists_but_no_force plat vip_identity force = Inr (agent_uuid, existed) \<and>
    basename filename \<notin> {[], ''.'', ''..''} \<and>
    rounds k H respond (Fetch 1024) Checksum (new_session p0) = Some s \<and> k < fuel \<and>
    respond (peer s) (Fetch 1024) = (p1, None)
    \<longrightarrow> install_agent fuel H respond ch filename p0 vip_identity force plat =
          Some (Inl Timeout, plat\<lparr>dirs := (dirs plat)(TmpDir (fresh_tmpdir ch) := None)\<rparr>,
                Some (s\<lparr>peer := p1, sent := sent s @ [Fetch 1024],
                        store_closed := True, channel_closed := True\<rparr>))) \<and>
   (identity_exists_but_no_force plat vip_identity force = Inr (agent_uuid, existed) \<and>
    basename filename \<notin> {[], ''.'', ''..''} \<and>
    rounds k H respond (Fetch 1024) Checksum (new_session p0) = Some s \<and> k < fuel \<and>
    respond (peer s) (Fetch 1024) = (p1, Some chunk) \<and> chunk \<noteq> ''complete'' \<and>
    respond p1 Checksum = (p2, None)
    \<longrightarrow> install_agent fuel H respond ch filename p0 vip_identity force plat =
          Some (Inl Timeout, plat\<lparr>dirs := (dirs plat)(TmpDir (fresh_tmpdir ch) := None)\<rparr>,
                Some (s\<lparr>peer := p2, sent := sent s @ [Fetch 1024, Checksum],
                        sha512 := sha512 s @ chunk, store := store s @ chunk,
                        store_closed := True, channel_closed := True\<rparr>))) \<and>
   (install_agent fuel H respond ch filename p0 vip_identity force plat = Some (r, plat', closing) \<and>
    (r = Inl Timeout \<or> r = Inl AssertionError \<or> (\<exists>uid. r = Inr uid))
    \<longrightarrow> (\<exists>sess. closing = Some sess \<and> store_closed sess \<and> channel_closed sess) \<and>
        dirs plat' (TmpDir (fresh_tmpdir ch)) = None)"
proof (intro conjI impI)
  assume a: "identity_exists_but_no_force plat vip_identity force = Inr (agent_uuid, existed) \<and>
    basename filename \<notin> {[], ''.'', ''..''} \<and>
    rounds k H respond (Fetch 1024) Checksum (new_session p0) = Some s \<and> k < fuel \<and>
    respond (peer s) (Fetch 1024) = (p1, None)"
  then have "transfer_round H respond (Fetch 1024) Checksum s =
      Raise Timeout (s\<lparr>peer := p1, sent := sent s @ [Fetch 1024]\<rparr>)"
    by (simp add: transfer_round_def Let_def)
  with a install_agent_raise[of plat vip_identity force agent_uuid existed filename k H respond p0 s
      Timeout "s\<lparr>peer := p1, sent := sent s @ [Fetch 1024]\<rparr>" fuel ch]
  show "install_agent fuel H respond ch filename p0 vip_identity force plat =
          Some (Inl Timeout, plat\<lparr>dirs := (dirs plat)(TmpDir (fresh_tmpdir ch) := None)\<rparr>,
                Some (s\<lparr>peer := p1, sent := sent s @ [Fetch 1024],
                        store_closed := True, channel_closed := True\<rparr>))"
    by simp
next
  assume a: "identity_exists_but_no_force plat vip_identity force = Inr (agent_uuid, existed) \<and>
    basename filename \<notin> {[], ''.'', ''..''} \<and>
    rounds k H respond (Fetch 1024) Checksum (new_session p0) = Some s \<and> k < fuel \<and>
    respond (peer s) (Fetch 1024) = (p1, Some chunk) \<and> chunk \<noteq> ''complete'' \<and>
    respond p1 Checksum = (p2, None)"
  then have "transfer_round H respond (Fetch 1024) Checksum s =
      Raise Timeout (s\<lparr>peer := p2, sent := sent s @ [Fetch 1024, Checksum],
                        sha512 := sha512 s @ chunk, store := store s @ chunk\<rparr>)"
    by (simp add: transfer_round_def Let_def)
  with a install_agent_raise[of plat vip_identity force agent_uuid existed filename k H respond p0 s
      Timeout "s\<lparr>peer := p2, sent := sent s @ [Fetch 1024, Checksum],
                        sha512 := sha512 s @ chunk, store := store s @ chunk\<rparr>" fuel ch]
  show "install_agent fuel H respond ch filename p0 vip_identity force plat =
          Some (Inl Timeout, plat\<lparr>dirs := (dirs plat)(TmpDir (fresh_tmpdir ch) := None)\<rparr>,
                Some (s\<lparr>peer := p2, sent := sent s @ [Fetch 1024, Checksum],
                        sha512 := sha512 s @ chunk, store := store s @ chunk,
                        store_closed := True, channel_closed := True\<rparr>))"
    by simp
next
  assume a: "install_agent fuel H respond ch filename p0 vip_identity force plat = Some (r, plat', closing) \<and>
    (r = Inl Timeout \<or> r = Inl AssertionError \<or> (\<exists>uid. r = Inr uid))"
  then show "\<exists>sess. closing = Some sess \<and> store_closed sess \<and> channel_closed sess"
    by (auto simp: install_agent_def Let_def identity_exists_but_no_force_def
             split: sum.splits prod.splits option.splits if_splits)
next
  assume a: "install_agent fuel H respond ch filename p0 vip_identity force plat = Some (r, plat', closing) \<and>
    (r = Inl Timeout \<or> r = Inl AssertionError \<or> (\<exists>uid. r = Inr uid))"
  then show "dirs plat' (TmpDir (fresh_tmpdir ch)) = None"
    by (auto simp: install_agent_def Let_def identity_exists_but_no_force_def rmtree_def
             split: sum.splits prod.splits option.splits if_splits)
qed

theorem timeout_aborts_and_releases_witness:
  "identity_exists_but_no_force demo_platform (Some ''historian'') False = Inr (None, False) \<and>
   basename ''/home/volttron/listeneragent-3.3.whl'' \<notin> {[], ''.'', ''..''} \<and>
   rounds (Suc 0) stand_in_digest scripted (Fetch 1024) Checksum
      (new_session [Some ''abcd'', Some ''dcba'']) =
     Some \<lparr>peer = [], sent = [Fetch 1024, Checksum],
           sha512 = ''abcd'', store = ''abcd'', checksum = Some ''dcba'',
           store_closed = False, channel_closed = False\<rparr> \<and>
   scripted [] (Fetch 1024) = ([], None) \<and>
   install_agent 2 stand_in_digest scripted demo_choices ''/home/volttron/listeneragent-3.3.whl''
       [Some ''abcd'', Some ''dcba''] (Some ''historian'') False demo_platform =
     Some (Inl Timeout,
           demo_platform\<lparr>dirs := (dirs demo_platform)(TmpDir ''/tmp/tmpa1b2'' := None)\<rparr>,
           Some \<lparr>peer = [], sent = [Fetch 1024, Checksum, Fetch 1024],
                 sha512 = ''abcd'', store = ''abcd'', checksum = Some ''dcba'',
                 store_closed = True, channel_closed = True\<rparr>) \<and>
   rounds 0 stand_in_digest scripted (Fetch 1024) Checksum (new_session [Some ''abcd'']) =
     Some (new_session [Some ''abcd'']) \<and>
   scripted [Some ''abcd''] (Fetch 1024) = ([], Some ''abcd'') \<and>
   ''abcd'' \<noteq> ''complete'' \<and>
   scripted [] Checksum = ([], None) \<and>
   install_agent 1 stand_in_digest scripted demo_choices ''/home/volttron/listeneragent-3.3.whl''
       [Some ''abcd''] (Some ''historian'') False demo_platform =
     Some (Inl Timeout,
           demo_platform\<lparr>dirs := (dirs demo_platform)(TmpDir ''/tmp/tmpa1b2'' := None)\<rparr>,
           Some \<lparr>peer = [], sent = [Fetch 1024, Checksum],
                 sha512 = ''abcd'', store = ''abcd'', checksum = None,
                 store_closed = True, channel_closed = True\<rparr>) \<and>
   dirs (demo_platform\<lparr>dirs := (dirs demo_platform)(TmpDir ''/tmp/tmpa1b2'' := None)\<rparr>)
     (TmpDir (fresh_tmpdir demo_choices)) = None"
proof -
  let ?s = "\<lparr>peer = [], sent = [Fetch 1024, Checksum],
           sha512 = ''abcd'', store = ''abcd'', checksum = Some ''dcba'',
           store_closed = False, channel_closed = False\<rparr> :: bytes option list session"
  let ?file = "''/home/volttron/listeneragent-3.3.whl''"
  let ?gone = "demo_platform\<lparr>dirs := (dirs demo_platform)(TmpDir ''/tmp/tmpa1b2'' := None)\<rparr>"
  have h1: "identity_exists_but_no_force demo_platform (Some ''historian'') False = Inr (None, False)"
    by (rule demo_admitted)
  have h2: "basename ?file \<notin> {[], ''.'', ''..''}"
    by (simp add: demo_basename)
  have h3: "rounds (Suc 0) stand_in_digest scripted (Fetch 1024) Checksum
      (new_session [Some ''abcd'', Some ''dcba'']) = Some ?s"
    by (rule demo_round)
  have h4: "scripted [] (Fetch 1024) = ([], None)" by (simp add: scripted_def)
  have h4': "scripted (peer ?s) (Fetch 1024) = ([], None)" by (simp add: scripted_def)
  have a: "install_agent 2 stand_in_digest scripted demo_choices ?file
       [Some ''abcd'', Some ''dcba''] (Some ''historian'') False demo_platform =
     Some (Inl Timeout, ?gone,
           Some \<lparr>peer = [], sent = [Fetch 1024, Checksum, Fetch 1024],
                 sha512 = ''abcd'', store = ''abcd'', checksum = Some ''dcba'',
                 store_closed = True, channel_closed = True\<rparr>)"
    using timeout_aborts_and_releases[of demo_platform "Some ''historian''" False None False ?file
        "Suc 0" stand_in_digest scripted "[Some ''abcd'', Some ''dcba'']" ?s 2 "[]" demo_choices]
      h1 h2 h3 h4'
    by (simp add: demo_choices_def)
  have k3: "rounds 0 stand_in_digest scripted (Fetch 1024) Checksum (new_session [Some ''abcd'']) =
     Some (new_session [Some ''abcd''])" by simp
  have k4: "scripted [Some ''abcd''] (Fetch 1024) = ([], Some ''abcd'')" by (simp add: scripted_def)
  have k5: "''abcd'' \<noteq> ''complete''" by simp
  have k6: "scripted [] Checksum = ([], None)" by (simp add: scripted_def)
  have b: "install_agent 1 stand_in_digest scripted demo_choices ?file
       [Some ''abcd''] (Some ''historian'') False demo_platform =
     Some (Inl Timeout, ?gone,
           Some \<lparr>peer = [], sent = [Fetch 1024, Checksum],
                 sha512 = ''abcd'', store = ''abcd'', checksum = None,
                 store_closed = True, channel_closed = True\<rparr>)"
    using timeout_aborts_and_releases[of demo_platform "Some ''historian''" False None False ?file
        0 stand_in_digest scripted "[Some ''abcd'']" "new_session [Some ''abcd'']" 1 "[]"
        demo_choices "''abcd''" "[]"]
      h1 h2 k3 k4 k5 k6
    by (simp add: demo_choices_def new_session_def)
  have c: "dirs ?gone (TmpDir (fresh_tmpdir demo_choices)) = None"
    using timeout_aborts_and_releases[of demo_platform "Some ''historian''" False None False ?file
        0 stand_in_digest scripted "[Some ''abcd'']" "new_session [Some ''abcd'']" 1 "[]"
        demo_choices "''abcd''" "[]" "Inl Timeout" ?gone] b
    by blast
  show ?thesis using h1 h2 h3 h4 a k3 k4 k5 k6 b c by blast
qed

subsection \<open>Identity conflicts\<close>

lemma identity_exists_installed:
  assumes "identity_exists plat identity = Some uid"
  shows "uid \<in> fst ` set (agents plat)"
proof -
  from assms obtain x where f: "find (\<lambda>x. listing_identity x = Some identity) (list_agents plat) = Some x"
    and u: "listing_uuid x = uid"
    by (auto simp: identity_exists_def Let_def split: if_splits)
  from f have "x \<in> set (list_agents plat)"
    by (auto simp: find_Some_iff)
  with u show ?thesis
    by (force simp: list_agents_def platform_list_agents_def)
qed

text \<open>
  Claim C6. An install without \<open>force\<close> for an identity (a non-empty string)
  that \<open>_identity_exists\<close> resolves to the uuid (a non-empty string) of an
  installed agent raises \<open>ValueError\<close> before a channel is opened, whatever the
  peer and the fuel, and leaves the platform exactly as it was.
\<close>

theorem install_refused_without_force:
  assumes "identity \<noteq> []"
    and "identity_exists plat identity = Some uid"
    and "uid \<noteq> []"
  shows "install_agent fuel H respond ch filename p0 (Some identity) False plat =
     Some (Inl (ValueError ''Identity already exists, but not forced!''), plat, None)"
  using assms
  by (simp add: install_agent_def identity_exists_but_no_force_def truthy_str_def)

theorem install_refused_without_force_witness:
  "''listener'' \<noteq> [] \<and> identity_exists demo_platform ''listener'' = Some ''u-1'' \<and> ''u-1'' \<noteq> [] \<and>
   install_agent 0 stand_in_digest scripted demo_choices ''/home/volttron/listeneragent-3.3.whl''
      [] (Some ''listener'') False demo_platform =
     Some (Inl (ValueError ''Identity already exists, but not forced!''), demo_platform, None)"
proof -
  have h1: "''listener'' \<noteq> []" by simp
  have h2: "identity_exists demo_platform ''listener'' = Some ''u-1''" by (rule demo_lookup)
  have h3: "''u-1'' \<noteq> []" by simp
  show ?thesis
    using install_refused_without_force[OF h1 h2 h3] h2 by simp
qed

subsection \<open>Forced reinstall\<close>

lemma install_wheel_forced:
  assumes "old \<noteq> []" "fresh_uuid ch \<notin> fst ` set (agents plat)" "old \<in> fst ` set (agents plat)"
    and "dirs plat (fst path) = Some tmpfiles" "tmpfiles (snd path) = Some package"
    and "\<forall>uid. fst path \<noteq> AgentData uid"
  shows "\<exists>plat'. install_wheel_to_platform ch plat (Some old) vip_identity path True =
            (Inr (fresh_uuid ch), plat') \<and>
     old \<notin> fst ` set (agents plat') \<and>
     platform_agent plat' (fresh_uuid ch) =
       Some \<lparr>agent_name = snd path, agent_identity = vip_identity, agent_tag = None,
             agent_priority = None,
             agent_publickey = fst (platform_get_agent_keystore plat old),
             agent_secretkey = snd (platform_get_agent_keystore plat old),
             agent_wheel = package\<rparr> \<and>
     tarballs plat' (''/tmp/'' @ old @ ''.tar.gz'') =
       Some (case dirs plat (AgentData old) of None \<Rightarrow> Map.empty | Some files \<Rightarrow> files) \<and>
     (\<exists>new_files. dirs plat' (AgentData (fresh_uuid ch)) = Some new_files \<and>
        (\<forall>files file content. dirs plat (AgentData old) = Some files \<and> files file = Some content
            \<longrightarrow> new_files file = Some content)) \<and>
     dirs plat' (fst path) = dirs plat (fst path) \<and>
     vip_sent plat' = vip_sent plat @ [(''agentstop'', [platform_agent_identity plat old])] \<and>
     history plat' = history plat @
       [Archived (''/tmp/'' @ old @ ''.tar.gz'') (AgentData old), Removed old,
        Installed (fresh_uuid ch),
        Restored (''/tmp/'' @ old @ ''.tar.gz'') (AgentData (fresh_uuid ch))]"
proof -
  have ne: "fresh_uuid ch \<noteq> old" using assms(2,3) by auto
  have nf: "map_of (filter (\<lambda>(u, a). u \<noteq> old) (agents plat)) (fresh_uuid ch) = None"
    using assms(2) by (auto simp: map_of_eq_None_iff)
  have no: "old \<notin> fst ` set (filter (\<lambda>(u, a). u \<noteq> old) (agents plat))"
    by auto
  show ?thesis
    using assms(1,4,5,6) ne nf no
    by (cases path; cases "dirs plat (AgentData old)")
       (auto simp: install_wheel_to_platform_def truthy_str_def Let_def
          platform_create_agent_data_dir_if_missing_def backup_agent_data_def
          platform_get_agent_keystore_def platform_agent_def remove_agent_def
          platform_remove_agent_def platform_install_agent_def restore_agent_data_from_tgz_def
          platform_agent_identity_def map_add_def
          split: option.splits)
qed

lemma demo_transfer:
  "transfer_loop 2 stand_in_digest (sender_respond stand_in_digest) (Fetch 1024) Checksum
     (new_session \<lparr>remaining = ''wheel-v2'', transmitted = []\<rparr>) =
   Some (None,
     \<lparr>peer = \<lparr>remaining = [], transmitted = ''wheel-v2''\<rparr>,
      sent = [Fetch 1024, Checksum, Fetch 1024], sha512 = ''wheel-v2'', store = ''wheel-v2'',
      checksum = Some ''2v-leehw'', store_closed = False, channel_closed = False\<rparr>)"
  by (simp add: numeral_2_eq_2 transfer_round_def sender_respond_def new_session_def Let_def
        stand_in_digest_def)

text \<open>
  Claim C7. A forced install over an existing identity whose transfer completes
  returns the uuid the registry assigns (one that is not in use). It makes four
  changes, in this order: the old data directory is archived, the old agent is
  removed, the new agent is installed, the archive is restored into the new
  agent's data directory. Afterwards the old uuid is not in the registry, the
  new agent carries the identity and the keypair read from the old agent's
  keystore, the tarball \<open>/tmp/<old uuid>.tar.gz\<close> holds the old data directory
  as it was before the removal, and every file of that directory is in the new
  agent's data directory with the same content.
\<close>

theorem forced_install_keeps_data_and_keys:
  assumes present: "identity_exists plat identity = Some old"
    and uuid: "old \<noteq> []"
    and ident: "identity \<noteq> []"
    and named: "basename filename \<notin> {[], ''.'', ''..''}"
    and transferred: "transfer_loop fuel H respond (Fetch 1024) Checksum (new_session p0) = Some (None, sess)"
    and fresh: "fresh_uuid ch \<notin> fst ` set (agents plat)"
  shows "\<exists>plat'.
     install_agent fuel H respond ch filename p0 (Some identity) True plat =
       Some (Inr (fresh_uuid ch), plat', Some (sess\<lparr>store_closed := True, channel_closed := True\<rparr>)) \<and>
     old \<notin> fst ` set (agents plat') \<and>
     platform_agent plat' (fresh_uuid ch) =
       Some \<lparr>agent_name = basename filename, agent_identity = Some identity, agent_tag = None,
             agent_priority = None,
             agent_publickey = fst (platform_get_agent_keystore plat old),
             agent_secretkey = snd (platform_get_agent_keystore plat old),
             agent_wheel = store sess\<rparr> \<and>
     tarballs plat' (''/tmp/'' @ old @ ''.tar.gz'') =
       Some (case dirs plat (AgentData old) of None \<Rightarrow> Map.empty | Some files \<Rightarrow> files) \<and>
     (\<exists>new_files. dirs plat' (AgentData (fresh_uuid ch)) = Some new_files \<and>
        (\<forall>files file content. dirs plat (AgentData old) = Some files \<and> files file = Some content
            \<longrightarrow> new_files file = Some content)) \<and>
     dirs plat' (TmpDir (fresh_tmpdir ch)) = None \<and>
     history plat' = history plat @
       [Archived (''/tmp/'' @ old @ ''.tar.gz'') (AgentData old), Removed old,
        Installed (fresh_uuid ch),
        Restored (''/tmp/'' @ old @ ''.tar.gz'') (AgentData (fresh_uuid ch))]"
proof -
  let ?tmp = "TmpDir (fresh_tmpdir ch)"
  let ?file = "basename filename"
  define plat3 where "plat3 =
     write_file (write_file (plat\<lparr>dirs := (dirs plat)(?tmp \<mapsto> Map.empty)\<rparr>) ?tmp ?file [])
       ?tmp ?file (store sess)"
  have ag: "agents plat3 = agents plat" and tb: "tarballs plat3 = tarballs plat"
    and hi: "history plat3 = history plat"
    and od: "dirs plat3 (AgentData uid) = dirs plat (AgentData uid)" for uid
    by (simp_all add: plat3_def write_file_def)
  have ks: "platform_get_agent_keystore plat3 old = platform_get_agent_keystore plat old"
    by (simp add: platform_get_agent_keystore_def platform_agent_def ag)
  have tmpf: "dirs plat3 (fst (?tmp, ?file)) = Some [?file \<mapsto> store sess]"
    by (simp add: plat3_def write_file_def)
  have pk: "[?file \<mapsto> store sess] (snd (?tmp, ?file)) = Some (store sess)" by simp
  have inst: "old \<in> fst ` set (agents plat3)"
    using identity_exists_installed[OF present] by (simp add: ag)
  have fresh3: "fresh_uuid ch \<notin> fst ` set (agents plat3)" using fresh by (simp add: ag)
  have nd: "\<forall>uid. fst (?tmp, ?file) \<noteq> AgentData uid" by simp
  from install_wheel_forced[OF uuid fresh3 inst tmpf pk nd, of "Some identity"]
  obtain plat4 where
    w: "install_wheel_to_platform ch plat3 (Some old) (Some identity) (?tmp, ?file) True =
          (Inr (fresh_uuid ch), plat4)"
    and gone: "old \<notin> fst ` set (agents plat4)"
    and new: "platform_agent plat4 (fresh_uuid ch) =
       Some \<lparr>agent_name = ?file, agent_identity = Some identity, agent_tag = None,
             agent_priority = None,
             agent_publickey = fst (platform_get_agent_keystore plat3 old),
             agent_secretkey = snd (platform_get_agent_keystore plat3 old),
             agent_wheel = store sess\<rparr>"
    and tar: "tarballs plat4 (''/tmp/'' @ old @ ''.tar.gz'') =
       Some (case dirs plat3 (AgentData old) of None \<Rightarrow> Map.empty | Some files \<Rightarrow> files)"
    and data: "\<exists>new_files. dirs plat4 (AgentData (fresh_uuid ch)) = Some new_files \<and>
        (\<forall>files file content. dirs plat3 (AgentData old) = Some files \<and> files file = Some content
            \<longrightarrow> new_files file = Some content)"
    and order: "history plat4 = history plat3 @
       [Archived (''/tmp/'' @ old @ ''.tar.gz'') (AgentData old), Removed old,
        Installed (fresh_uuid ch),
        Restored (''/tmp/'' @ old @ ''.tar.gz'') (AgentData (fresh_uuid ch))]"
    by auto
  have run: "install_agent fuel H respond ch filename p0 (Some identity) True plat =
       Some (Inr (fresh_uuid ch), rmtree plat4 ?tmp,
             Some (sess\<lparr>store_closed := True, channel_closed := True\<rparr>))"
    using present uuid ident named transferred w
    by (simp add: install_agent_def identity_exists_but_no_force_def truthy_str_def Let_def
          plat3_def)
  have r1: "agents (rmtree plat4 ?tmp) = agents plat4"
    and r2: "tarballs (rmtree plat4 ?tmp) = tarballs plat4"
    and r3: "dirs (rmtree plat4 ?tmp) (AgentData uid) = dirs plat4 (AgentData uid)"
    and r4: "dirs (rmtree plat4 ?tmp) ?tmp = None"
    and r6: "history (rmtree plat4 ?tmp) = history plat4" for uid
    by (simp_all add: rmtree_def)
  have r5: "platform_agent (rmtree plat4 ?tmp) uid = platform_agent plat4 uid" for uid
    by (simp add: platform_agent_def r1)
  show ?thesis
    using run gone new tar data order
    by (simp add: r1 r2 r3 r4 r5 r6 ks od hi)
qed

theorem forced_install_keeps_data_and_keys_witness:
  "identity_exists demo_platform ''listener'' = Some ''u-1'' \<and>
   ''u-1'' \<noteq> [] \<and> ''listener'' \<noteq> [] \<and>
   basename ''/home/volttron/listeneragent-3.3.whl'' \<notin> {[], ''.'', ''..''} \<and>
   fresh_uuid demo_choices \<notin> fst ` set (agents demo_platform) \<and>
   transfer_loop 2 stand_in_digest (sender_respond stand_in_digest) (Fetch 1024) Checksum
     (new_session \<lparr>remaining = ''wheel-v2'', transmitted = []\<rparr>) =
   Some (None,
     \<lparr>peer = \<lparr>remaining = [], transmitted = ''wheel-v2''\<rparr>,
      sent = [Fetch 1024, Checksum, Fetch 1024], sha512 = ''wheel-v2'', store = ''wheel-v2'',
      checksum = Some ''2v-leehw'', store_closed = False, channel_closed = False\<rparr>) \<and>
   (\<exists>plat'.
      install_agent 2 stand_in_digest (sender_respond stand_in_digest) demo_choices
          ''/home/volttron/listeneragent-3.3.whl'' \<lparr>remaining = ''wheel-v2'', transmitted = []\<rparr>
          (Some ''listener'') True demo_platform =
        Some (Inr ''u-2'', plat',
              Some \<lparr>peer = \<lparr>remaining = [], transmitted = ''wheel-v2''\<rparr>,
                    sent = [Fetch 1024, Checksum, Fetch 1024], sha512 = ''wheel-v2'',
                    store = ''wheel-v2'', checksum = Some ''2v-leehw'',
                    store_closed = True, channel_closed = True\<rparr>) \<and>
      ''u-1'' \<notin> fst ` set (agents plat') \<and>
      platform_agent plat' ''u-2'' =
        Some \<lparr>agent_name = ''listeneragent-3.3.whl'', agent_identity = Some ''listener'',
              agent_tag = None, agent_priority = None,
              agent_publickey = Some ''PUB1'', agent_secretkey = Some ''SEC1'',
              agent_wheel = ''wheel-v2''\<rparr> \<and>
      (\<exists>new_files. dirs plat' (AgentData ''u-2'') = Some new_files \<and>
          new_files ''state.json'' = Some ''{}'') \<and>
      dirs plat' (TmpDir ''/tmp/tmpa1b2'') = None \<and>
      history plat' =
        [Archived ''/tmp/u-1.tar.gz'' (AgentData ''u-1''), Removed ''u-1'', Installed ''u-2'',
         Restored ''/tmp/u-1.tar.gz'' (AgentData ''u-2'')])"
proof -
  let ?sess = "\<lparr>peer = \<lparr>remaining = [], transmitted = ''wheel-v2''\<rparr>,
      sent = [Fetch 1024, Checksum, Fetch 1024], sha512 = ''wheel-v2'', store = ''wheel-v2'',
      checksum = Some ''2v-leehw'', store_closed = False, channel_closed = False\<rparr>"
  have h1: "identity_exists demo_platform ''listener'' = Some ''u-1''" by (rule demo_lookup)
  have h2: "''u-1'' \<noteq> []" and h3: "''listener'' \<noteq> []" by simp_all
  have h4: "basename ''/home/volttron/listeneragent-3.3.whl'' \<notin> {[], ''.'', ''..''}"
    by (simp add: demo_basename)
  have h5: "transfer_loop 2 stand_in_digest (sender_respond stand_in_digest) (Fetch 1024) Checksum
     (new_session \<lparr>remaining = ''wheel-v2'', transmitted = []\<rparr>) = Some (None, ?sess)"
    by (rule demo_transfer)
  have h6: "fresh_uuid demo_choices \<notin> fst ` set (agents demo_platform)"
    by (simp add: demo_choices_def demo_platform_def)
  have ks: "platform_get_agent_keystore demo_platform ''u-1'' = (Some ''PUB1'', Some ''SEC1'')"
    by (simp add: platform_get_agent_keystore_def platform_agent_def demo_platform_def)
  have dd: "dirs demo_platform (AgentData ''u-1'') = Some [''state.json'' \<mapsto> ''{}'']"
    by (simp add: demo_platform_def)
  have hd: "history demo_platform = []"
    by (simp add: demo_platform_def)
  from forced_install_keeps_data_and_keys[OF h1 h2 h3 h4 h5 h6] obtain plat' where
    run: "install_agent 2 stand_in_digest (sender_respond stand_in_digest) demo_choices
          ''/home/volttron/listeneragent-3.3.whl'' \<lparr>remaining = ''wheel-v2'', transmitted = []\<rparr>
          (Some ''listener'') True demo_platform =
        Some (Inr (fresh_uuid demo_choices), plat',
              Some (?sess\<lparr>store_closed := True, channel_closed := True\<rparr>))"
    and gone: "''u-1'' \<notin> fst ` set (agents plat')"
    and new: "platform_agent plat' (fresh_uuid demo_choices) =
       Some \<lparr>agent_name = basename ''/home/volttron/listeneragent-3.3.whl'',
             agent_identity = Some ''listener'', agent_tag = None, agent_priority = None,
             agent_publickey = fst (platform_get_agent_keystore demo_platform ''u-1''),
             agent_secretkey = snd (platform_get_agent_keystore demo_platform ''u-1''),
             agent_wheel = store ?sess\<rparr>"
    and data: "\<exists>new_files. dirs plat' (AgentData (fresh_uuid demo_choices)) = Some new_files \<and>
        (\<forall>files file content. dirs demo_platform (AgentData ''u-1'') = Some files \<and>
            files file = Some content \<longrightarrow> new_files file = Some content)"
    and tmp: "dirs plat' (TmpDir (fresh_tmpdir demo_choices)) = None"
    and order: "history plat' = history demo_platform @
       [Archived (''/tmp/'' @ ''u-1'' @ ''.tar.gz'') (AgentData ''u-1''), Removed ''u-1'',
        Installed (fresh_uuid demo_choices),
        Restored (''/tmp/'' @ ''u-1'' @ ''.tar.gz'') (AgentData (fresh_uuid demo_choices))]"
    by blast
  from data dd obtain new_files where
    nf: "dirs plat' (AgentData (fresh_uuid demo_choices)) = Some new_files"
    and kept: "new_files ''state.json'' = Some ''{}''"
    by fastforce
  have "install_agent 2 stand_in_digest (sender_respond stand_in_digest) demo_choices
          ''/home/volttron/listeneragent-3.3.whl'' \<lparr>remaining = ''wheel-v2'', transmitted = []\<rparr>
          (Some ''listener'') True demo_platform =
        Some (Inr ''u-2'', plat',
              Some \<lparr>peer = \<lparr>remaining = [], transmitted = ''wheel-v2''\<rparr>,
                    sent = [Fetch 1024, Checksum, Fetch 1024], sha512 = ''wheel-v2'',
                    store = ''wheel-v2'', checksum = Some ''2v-leehw'',
                    store_closed = True, channel_closed = True\<rparr>) \<and>
      ''u-1'' \<notin> fst ` set (agents plat') \<and>
      platform_agent plat' ''u-2'' =
        Some \<lparr>agent_name = ''listeneragent-3.3.whl'', agent_identity = Some ''listener'',
              agent_tag = None, agent_priority = None,
              agent_publickey = Some ''PUB1'', agent_secretkey = Some ''SEC1'',
              agent_wheel = ''wheel-v2''\<rparr> \<and>
      (\<exists>new_files. dirs plat' (AgentData ''u-2'') = Some new_files \<and>
          new_files ''state.json'' = Some ''{}'') \<and>
      dirs plat' (TmpDir ''/tmp/tmpa1b2'') = None \<and>
      history plat' =
        [Archived ''/tmp/u-1.tar.gz'' (AgentData ''u-1''), Removed ''u-1'', Installed ''u-2'',
         Restored ''/tmp/u-1.tar.gz'' (AgentData ''u-2'')]"
    using run gone new nf kept tmp order
    by (simp add: demo_choices_def ks demo_basename hd)
  then show ?thesis using h1 h2 h3 h4 h5 h6 by blast
qed

end
